theory Spec2Isabelle
  imports Complex_Main "HOL-Library.Product_Lexorder" "HOL-Library.Multiset"
begin

section \<open>Python dictionaries with insertion order\<close>

text \<open>
  A Python \<open>dict\<close> keeps its keys in insertion order; assigning to a key that is already
  present replaces the value and keeps the key's position. Where the order of the keys is
  observable (iteration, \<open>next(iter(d))\<close>) a dictionary is an association list with that
  discipline.
\<close>

type_synonym ('k, 'v) pydict = "('k \<times> 'v) list"

fun dict_set :: "'k \<Rightarrow> 'v \<Rightarrow> ('k, 'v) pydict \<Rightarrow> ('k, 'v) pydict" where
  "dict_set k v [] = [(k, v)]"
| "dict_set k v ((k', v') # d) = (if k' = k then (k, v) # d else (k', v') # dict_set k v d)"

definition dict_get :: "('k, 'v) pydict \<Rightarrow> 'k \<Rightarrow> 'v option" where
  "dict_get d k = map_of d k"

definition dict_pop :: "'k \<Rightarrow> ('k, 'v) pydict \<Rightarrow> ('k, 'v) pydict" where
  "dict_pop k d = filter (\<lambda>kv. fst kv \<noteq> k) d"

definition dict_keys :: "('k, 'v) pydict \<Rightarrow> 'k list" where
  "dict_keys d = map fst d"

section \<open>The decision binder (cs\_module/utils/process\_binder.py)\<close>

text \<open>
  A snapshot is the dictionary the engine enqueues: \<open>rec_id\<close>, \<open>mission_id\<close>,
  \<open>feature_vector\<close> (\<open>None\<close> when no intervention bandit is used), \<open>content_count\<close> and
  \<open>selection_time\<close>. The replay path (\<open>set_snapshot\<close>) builds snapshots without
  \<open>content_count\<close> and with an optional \<open>selection_time\<close>, so both are optional here.
\<close>

record snapshot =
  content_count :: "nat option"
  rec_id :: string
  mission_id :: "string option"
  feature_vector :: "real list option"
  selection_time :: "int option"

text \<open>
  \<open>pending[user_id][plan_id]\<close> is a \<open>defaultdict\<close> of \<open>defaultdict\<close> of \<open>deque\<close>: every key
  reads as the empty queue until something is appended. The plan id handed over by the
  feedback path may be \<open>None\<close>. \<open>proc_map\<close> is an ordinary (insertion-ordered) \<open>dict\<close>.
\<close>

record process_binder =
  pending :: "string \<Rightarrow> string option \<Rightarrow> snapshot list"
  proc_map :: "(string, snapshot) pydict"
  cap :: int

text \<open>
  \<open>self._cap = proc_cap or int(os.getenv("BINDER_PROC_CAP", "200000"))\<close>: a missing or
  zero \<open>proc_cap\<close> falls back to the environment value \<open>env_cap\<close>.
\<close>

definition binder_init :: "int option \<Rightarrow> int \<Rightarrow> process_binder" where
  "binder_init proc_cap env_cap =
     \<lparr> pending = (\<lambda>_ _. []),
       proc_map = [],
       cap = (case proc_cap of None \<Rightarrow> env_cap | Some c \<Rightarrow> if c = 0 then env_cap else c) \<rparr>"

definition enqueue_decision :: "process_binder \<Rightarrow> string \<Rightarrow> string option \<Rightarrow> snapshot \<Rightarrow> process_binder" where
  "enqueue_decision b user_id plan_id snap =
     b\<lparr> pending := (pending b)(user_id := (pending b user_id)(plan_id := pending b user_id plan_id @ [snap])) \<rparr>"

text \<open>The test of the scan loop: \<open>snap["rec_id"] == rec_id and (mission_id is None or
  snap["mission_id"] == mission_id)\<close>.\<close>

definition snap_matches :: "string \<Rightarrow> string option \<Rightarrow> snapshot \<Rightarrow> bool" where
  "snap_matches rid mid snap \<longleftrightarrow> rec_id snap = rid \<and> (mid = None \<or> mission_id snap = mid)"

text \<open>The \<open>while dq\<close> loop of \<open>bind_on_sent\<close>: \<open>dq\<close> is consumed from the left, \<open>bound\<close>
  holds the snapshot found so far, \<open>new_dq\<close> collects the others in order.\<close>

fun bind_scan :: "string \<Rightarrow> string option \<Rightarrow> snapshot list \<Rightarrow> snapshot option \<Rightarrow> snapshot list
                  \<Rightarrow> snapshot option \<times> snapshot list" where
  "bind_scan rid mid [] bound new_dq = (bound, new_dq)"
| "bind_scan rid mid (snap # dq) bound new_dq =
     (if bound = None \<and> snap_matches rid mid snap
      then bind_scan rid mid dq (Some snap) new_dq
      else bind_scan rid mid dq bound (new_dq @ [snap]))"

definition bind_on_sent :: "process_binder \<Rightarrow> string \<Rightarrow> string option \<Rightarrow> string \<Rightarrow> string option \<Rightarrow> string
                            \<Rightarrow> snapshot option \<times> process_binder" where
  "bind_on_sent b user_id plan_id rid mid process_id =
     (let (bound, new_dq) = bind_scan rid mid (pending b user_id plan_id) None [];
          b1 = b\<lparr> pending := (pending b)(user_id := (pending b user_id)(plan_id := new_dq)) \<rparr>
      in case bound of
           None \<Rightarrow> (None, b1)
         | Some snap \<Rightarrow> (Some snap, b1\<lparr> proc_map := dict_set process_id snap (proc_map b1) \<rparr>))"

text \<open>\<open>_remember\<close>: store, then evict the first key of the dictionary when the size
  exceeds the cap and that key is not the one just written.\<close>

definition remember :: "process_binder \<Rightarrow> string \<Rightarrow> snapshot \<Rightarrow> process_binder" where
  "remember b process_id snap =
     (let pm = dict_set process_id snap (proc_map b)
      in if int (length pm) > cap b
         then (case dict_keys pm of
                 [] \<Rightarrow> b\<lparr> proc_map := pm \<rparr>
               | oldest_key # _ \<Rightarrow>
                   if oldest_key \<noteq> process_id then b\<lparr> proc_map := dict_pop oldest_key pm \<rparr>
                   else b\<lparr> proc_map := pm \<rparr>)
         else b\<lparr> proc_map := pm \<rparr>)"

text \<open>\<open>set_snapshot\<close> (replay path). \<open>extra\<close> is the optional dictionary merged into the
  snapshot by \<open>snap.update(extra)\<close>, given here as the field update it performs.\<close>

definition set_snapshot :: "process_binder \<Rightarrow> string \<Rightarrow> string \<Rightarrow> string option \<Rightarrow> real list option
                            \<Rightarrow> int option \<Rightarrow> (snapshot \<Rightarrow> snapshot) option \<Rightarrow> process_binder" where
  "set_snapshot b process_id rid mid fv sel_time extra =
     (let snap = \<lparr> content_count = None, rec_id = rid, mission_id = mid,
                   feature_vector = fv, selection_time = sel_time \<rparr>;
          snap' = (case extra of None \<Rightarrow> snap | Some upd \<Rightarrow> upd snap)
      in remember b process_id snap')"

definition lookup :: "process_binder \<Rightarrow> string \<Rightarrow> snapshot option" where
  "lookup b process_id = dict_get (proc_map b) process_id"

definition release :: "process_binder \<Rightarrow> string \<Rightarrow> process_binder" where
  "release b process_id = b\<lparr> proc_map := dict_pop process_id (proc_map b) \<rparr>"

subsection \<open>Example snapshots and binder\<close>

definition example_snap :: "nat \<Rightarrow> string \<Rightarrow> snapshot" where
  "example_snap n rid =
     \<lparr> content_count = Some n, rec_id = rid, mission_id = Some ''M1'',
       feature_vector = None, selection_time = Some 0 \<rparr>"

definition example_binder :: process_binder where
  "example_binder = enqueue_decision (binder_init None 200000) ''u1'' (Some ''plan1'') (example_snap 7 ''Y'')"

section \<open>Exceptions\<close>

text \<open>The exceptions the modelled code can raise; a function that can raise returns
  \<open>py_error + 'a\<close> with \<open>Inl\<close> for the exception.\<close>

datatype py_error = KeyError | ValueError | IndexError | TypeError

section \<open>Beta-Bernoulli Thompson sampling (cs\_module/multi\_armed\_bandit/bernoulli\_beta\_ts.py)\<close>

text \<open>
  \<open>alpha\<close> and \<open>beta\<close> are dictionaries from actions to numbers; only membership and
  lookup are used, so they are maps. Rewards and parameters are Python numbers, read as
  reals.
\<close>

record bernoulli_beta_ts =
  alpha_0 :: real
  beta_0 :: real
  alpha :: "string \<rightharpoonup> real"
  beta :: "string \<rightharpoonup> real"

definition BernoulliBetaTS_init :: "real \<Rightarrow> real \<Rightarrow> bernoulli_beta_ts" where
  "BernoulliBetaTS_init a0 b0 = \<lparr> alpha_0 = a0, beta_0 = b0, alpha = Map.empty, beta = Map.empty \<rparr>"

definition initialize_action :: "bernoulli_beta_ts \<Rightarrow> string \<Rightarrow> bernoulli_beta_ts" where
  "initialize_action m action =
     (if alpha m action = None
      then m\<lparr> alpha := (alpha m)(action \<mapsto> alpha_0 m), beta := (beta m)(action \<mapsto> beta_0 m) \<rparr>
      else m)"

text \<open>Python's \<open>max(xs, key=f)\<close>: the first element whose key is maximal (a later element
  replaces the current best only when its key is strictly greater).\<close>

fun py_max_key :: "('a \<Rightarrow> real) \<Rightarrow> 'a \<Rightarrow> 'a list \<Rightarrow> 'a" where
  "py_max_key f best [] = best"
| "py_max_key f best (x # xs) = py_max_key f (if f x > f best then x else best) xs"

text \<open>
  The loop of \<open>select_action\<close>. The \<open>i\<close>-th call of \<open>np.random.beta\<close> returns \<open>draw i\<close>;
  numpy raises \<open>ValueError\<close> when a parameter is not positive, and reading a missing
  \<open>beta[action]\<close> raises \<open>KeyError\<close>. The bandit state reached is returned also when the
  loop raises, since the registrations made so far stay in the object.
\<close>

fun sample_loop :: "(nat \<Rightarrow> real) \<Rightarrow> nat \<Rightarrow> string list \<Rightarrow> bernoulli_beta_ts \<Rightarrow> (string, real) pydict
                    \<Rightarrow> bernoulli_beta_ts \<times> (py_error + (string, real) pydict)" where
  "sample_loop draw i [] m sampled = (m, Inr sampled)"
| "sample_loop draw i (action # actions) m sampled =
     (let m1 = initialize_action m action
      in case alpha m1 action of
           None \<Rightarrow> (m1, Inl KeyError)
         | Some a \<Rightarrow>
            (case beta m1 action of
               None \<Rightarrow> (m1, Inl KeyError)
             | Some b \<Rightarrow>
                 if a \<le> 0 \<or> b \<le> 0 then (m1, Inl ValueError)
                 else sample_loop draw (Suc i) actions m1 (dict_set action (draw i) sampled)))"

text \<open>\<open>select_action\<close> returns the best action and the sampled values; \<open>max\<close> of an empty
  dictionary raises \<open>ValueError\<close>.\<close>

definition BernoulliBetaTS_select_action ::
  "bernoulli_beta_ts \<Rightarrow> (nat \<Rightarrow> real) \<Rightarrow> string list
   \<Rightarrow> bernoulli_beta_ts \<times> (py_error + string \<times> (string, real) pydict)" where
  "BernoulliBetaTS_select_action m draw actions =
     (case sample_loop draw 0 actions m [] of
        (m', Inl e) \<Rightarrow> (m', Inl e)
      | (m', Inr sampled) \<Rightarrow>
          (case sampled of
             [] \<Rightarrow> (m', Inl ValueError)
           | kv # rest \<Rightarrow> (m', Inr (fst (py_max_key snd kv rest), sampled))))"

text \<open>\<open>update\<close> returns the dictionary \<open>{"action", "alpha", "beta"}\<close> of the updated action.\<close>

record bbts_params =
  p_action :: string
  p_alpha :: real
  p_beta :: real

definition BernoulliBetaTS_update ::
  "bernoulli_beta_ts \<Rightarrow> string \<Rightarrow> real \<Rightarrow> bernoulli_beta_ts \<times> (py_error + bbts_params)" where
  "BernoulliBetaTS_update m action reward =
     (let m1 = initialize_action m action
      in case (if reward = 1
               then (case alpha m1 action of
                       None \<Rightarrow> Inl KeyError
                     | Some a \<Rightarrow> Inr (m1\<lparr> alpha := (alpha m1)(action \<mapsto> a + 1) \<rparr>))
               else (case beta m1 action of
                       None \<Rightarrow> Inl KeyError
                     | Some b \<Rightarrow> Inr (m1\<lparr> beta := (beta m1)(action \<mapsto> b + 1) \<rparr>))) of
           Inl e \<Rightarrow> (m1, Inl e)
         | Inr m2 \<Rightarrow>
             (case (alpha m2 action, beta m2 action) of
                (Some a, Some b) \<Rightarrow> (m2, Inr \<lparr> p_action = action, p_alpha = a, p_beta = b \<rparr>)
              | _ \<Rightarrow> (m2, Inl KeyError)))"

text \<open>\<open>registered_only m A m'\<close>: the bandit \<open>m'\<close> differs from \<open>m\<close> at most by actions of
  \<open>A\<close> that \<open>m\<close> had not seen and that \<open>m'\<close> holds at the prior.\<close>

definition registered_only :: "bernoulli_beta_ts \<Rightarrow> string set \<Rightarrow> bernoulli_beta_ts \<Rightarrow> bool" where
  "registered_only m A m' \<longleftrightarrow>
     alpha_0 m' = alpha_0 m \<and> beta_0 m' = beta_0 m \<and>
     (\<forall>b. (alpha m' b = alpha m b \<and> beta m' b = beta m b) \<or>
          (alpha m b = None \<and> b \<in> A \<and> alpha m' b = Some (alpha_0 m) \<and> beta m' b = Some (beta_0 m)))"

section \<open>Time handling\<close>

text \<open>
  Instants are aware UTC datetimes, read as integers (a total order). The time handler of
  cs\_module (\<open>cs_module/services/time_handler.py\<close>) parses client timestamps with an
  ISO-8601 library; its \<open>parse_client_ts\<close> is taken as a parameter: it returns an instant
  or raises. \<open>now\<close> is the handler's current time.
\<close>

record time_handler =
  now :: int
  parse_client_ts :: "string \<Rightarrow> py_error + int"

section \<open>User state (cs\_module/content\_selection/user.py)\<close>

text \<open>The profile dictionary of a user: the attributes the code reads. A missing key and
  a key holding \<open>None\<close> are both \<open>None\<close>.\<close>

record personal_data =
  gender :: "string option"
  userAge :: "real option"
  education :: "string option"
  recruitmentCenter :: "string option"
  enrolmentDate :: "string option"
  level :: "int option"

text \<open>A mission-selection record: the dictionary of one "mission selected" event.\<close>

record mission_sel =
  mission :: string
  recommendations :: "string list"
  resources :: "string list"
  prescribed :: bool
  selection_timestamp :: "string option"
  finish_timestamp :: "string option"
  plan_required :: bool

text \<open>
  The fields of \<open>User\<close> that the modelled operations read or write. The send and rating
  logs are read only by the feature pipeline and are not written by any operation below.
\<close>

record user =
  user_id :: string
  intervention_start_date :: "int option"
  personal_data :: personal_data
  health_habit_assessment :: "string \<rightharpoonup> real"
  active :: bool
  missions_started :: bool
  new_plan_required :: bool
  selected_missions_and_contents :: "mission_sel list"
  received_resources :: "string list"
  only_one_rec_already :: "string list"
  eow_rec_id_to_fv :: "string \<rightharpoonup> real list option"
  previous_mission_score :: "real option"




definition set_previous_mission_score :: "user \<Rightarrow> real option \<Rightarrow> user" where
  "set_previous_mission_score u score = u\<lparr> previous_mission_score := score \<rparr>"



text \<open>
  The loop of \<open>update_missions_and_contents\<close>. Each mission is flagged and appended; the
  first one ever sets \<open>missions_started\<close> and then the start date from its
  \<open>selection_timestamp\<close>. Reading a missing timestamp raises \<open>KeyError\<close> and a malformed one
  makes the parser raise; the exception leaves the method with the user as mutated so far,
  so the reached state is returned together with the exception.
\<close>

fun add_new_missions :: "time_handler \<Rightarrow> user \<Rightarrow> mission_sel list \<Rightarrow> user \<times> py_error option" where
  "add_new_missions th u [] = (u, None)"
| "add_new_missions th u (m # ms) =
     (let u1 = u\<lparr> selected_missions_and_contents :=
                   selected_missions_and_contents u @ [m\<lparr> plan_required := True \<rparr>] \<rparr>
      in if \<not> missions_started u1
         then (let u2 = u1\<lparr> missions_started := True \<rparr>
               in case selection_timestamp m of
                    None \<Rightarrow> (u2, Some KeyError)
                  | Some raw \<Rightarrow>
                      (case parse_client_ts th raw of
                         Inl e \<Rightarrow> (u2, Some e)
                       | Inr t \<Rightarrow> add_new_missions th (u2\<lparr> intervention_start_date := Some t \<rparr>) ms))
         else add_new_missions th u1 ms)"

definition update_missions_and_contents ::
  "time_handler \<Rightarrow> user \<Rightarrow> mission_sel list \<Rightarrow> user \<times> py_error option" where
  "update_missions_and_contents th u new_missions =
     (case add_new_missions th u new_missions of
        (u', None) \<Rightarrow> (u'\<lparr> new_plan_required := True \<rparr>, None)
      | (u', Some e) \<Rightarrow> (u', Some e))"

section \<open>User manager (cs\_module/content\_selection/user\_manager.py)\<close>

record user_manager =
  users :: "(string, user) pydict"
  active_user_ids :: "string list"


definition get_user :: "user_manager \<Rightarrow> string \<Rightarrow> user option" where
  "get_user um uid = dict_get (users um) uid"


text \<open>The single-event primitives used by \<open>ContentSelection.update\<close>. An unknown user is
  logged and skipped.\<close>

definition apply_mission_selected ::
  "time_handler \<Rightarrow> user_manager \<Rightarrow> string \<Rightarrow> mission_sel \<Rightarrow> user_manager \<times> py_error option" where
  "apply_mission_selected th um uid m =
     (case get_user um uid of
        None \<Rightarrow> (um, None)
      | Some u \<Rightarrow>
          (case update_missions_and_contents th u [m] of
             (u', e) \<Rightarrow> (um\<lparr> users := dict_set uid u' (users um) \<rparr>, e)))"

definition apply_mission_accomplished ::
  "user_manager \<Rightarrow> string \<Rightarrow> string \<Rightarrow> real option \<Rightarrow> user_manager" where
  "apply_mission_accomplished um uid mid score =
     (case get_user um uid of
        None \<Rightarrow> um
      | Some u \<Rightarrow> um\<lparr> users := dict_set uid (set_previous_mission_score u score) (users um) \<rparr>)"

section \<open>Mission events of one update batch (ContentSelection.update, cs\_module/content\_selection/core.py)\<close>

text \<open>A feedback event, as far as step 3a reads it: the event name, the raw timestamp and
  \<open>properties["mission_id"]\<close>, \<open>properties.get("score")\<close>.\<close>

record feedback_event =
  event_name :: string
  fe_timestamp :: "string option"
  fe_mission_id :: "string option"
  fe_score :: "real option"

text \<open>The \<open>new_missions_and_contents\<close> entry of one user.\<close>

record nmac_entry =
  update_timestamp :: "string option"
  new_missions :: "mission_sel list"

text \<open>An item of \<open>merged_by_user[user_id]\<close>: \<open>{"ts", "type": "select", "mission"}\<close> or
  \<open>{"ts", "type": "accomplish", "mission_id", "score"}\<close>.\<close>

datatype merged_event =
    Select int mission_sel
  | Accomplish int string "real option"

fun ev_ts :: "merged_event \<Rightarrow> int" where
  "ev_ts (Select t m) = t"
| "ev_ts (Accomplish t mid sc) = t"

text \<open>\<open>order = {"select": 0, "accomplish": 1}\<close>.\<close>

fun type_order :: "merged_event \<Rightarrow> nat" where
  "type_order (Select t m) = 0"
| "type_order (Accomplish t mid sc) = 1"

text \<open>The sort key \<open>(x["ts"], order[x["type"]])\<close>; tuples compare lexicographically.\<close>

definition merge_key :: "merged_event \<Rightarrow> int \<times> nat" where
  "merge_key x = (ev_ts x, type_order x)"

text \<open>Step 3a for one user: the "mission\_accomplished" events, in feedback order. An
  event whose timestamp does not parse is skipped; a missing \<open>mission_id\<close> raises.\<close>

fun merge_accomplished :: "time_handler \<Rightarrow> feedback_event list \<Rightarrow> py_error + merged_event list" where
  "merge_accomplished th [] = Inr []"
| "merge_accomplished th (ev # evs) =
     (if event_name ev \<noteq> ''mission_accomplished'' then merge_accomplished th evs
      else case (case fe_timestamp ev of None \<Rightarrow> Inl TypeError | Some raw \<Rightarrow> parse_client_ts th raw) of
             Inl e \<Rightarrow> merge_accomplished th evs
           | Inr ts \<Rightarrow>
               (case fe_mission_id ev of
                  None \<Rightarrow> Inl KeyError
                | Some mid \<Rightarrow>
                    (case merge_accomplished th evs of
                       Inl e \<Rightarrow> Inl e
                     | Inr rest \<Rightarrow> Inr (Accomplish ts mid (fe_score ev) # rest))))"

text \<open>Step 3b for one user: the selections. The mission's own timestamp is preferred to
  the container's; a timestamp that does not parse is replaced by \<open>now\<close>.\<close>

definition merge_selected :: "time_handler \<Rightarrow> nmac_entry \<Rightarrow> merged_event list" where
  "merge_selected th entry =
     map (\<lambda>m. let ts_raw = (case selection_timestamp m of
                               Some raw \<Rightarrow> if raw = [] then update_timestamp entry else Some raw
                             | None \<Rightarrow> update_timestamp entry);
                   ts = (case ts_raw of
                           None \<Rightarrow> now th
                         | Some raw \<Rightarrow> (case parse_client_ts th raw of Inl e \<Rightarrow> now th | Inr t \<Rightarrow> t))
               in Select ts m)
         (new_missions entry)"

text \<open>\<open>items.sort(key=...)\<close>: Python's sort is stable, as is insertion by key.\<close>

definition apply_order :: "merged_event list \<Rightarrow> merged_event list" where
  "apply_order items = sort_key merge_key items"

text \<open>Step 3c for one user: the events are applied in the sorted order; an exception
  ends the loop.\<close>

fun apply_events :: "time_handler \<Rightarrow> user_manager \<Rightarrow> string \<Rightarrow> merged_event list
                     \<Rightarrow> user_manager \<times> py_error option" where
  "apply_events th um uid [] = (um, None)"
| "apply_events th um uid (Select t m # evs) =
     (case apply_mission_selected th um uid m of
        (um', Some e) \<Rightarrow> (um', Some e)
      | (um', None) \<Rightarrow> apply_events th um' uid evs)"
| "apply_events th um uid (Accomplish t mid sc # evs) =
     apply_events th (apply_mission_accomplished um uid mid sc) uid evs"

definition update_user_missions :: "time_handler \<Rightarrow> user_manager \<Rightarrow> string \<Rightarrow> feedback_event list
                     \<Rightarrow> nmac_entry \<Rightarrow> user_manager \<times> py_error option" where
  "update_user_missions th um uid fb entry =
     (case merge_accomplished th fb of
        Inl e \<Rightarrow> (um, Some e)
      | Inr acc \<Rightarrow> apply_events th um uid (apply_order (acc @ merge_selected th entry)))"

subsection \<open>Example time handler, mission and batch\<close>



definition example_personal_data :: personal_data where
  "example_personal_data =
     \<lparr> gender = Some ''female'', userAge = Some 60, education = Some ''secondary'',
       recruitmentCenter = Some ''ICO'', enrolmentDate = Some ''E'', level = None \<rparr>"


section \<open>Logistic Thompson sampling with Laplace approximation (cs\_module/multi\_armed\_bandit/logistic\_laplace\_ts.py)\<close>

text \<open>
  The posterior is a mean vector \<open>mu\<close> and a diagonal precision vector \<open>Pd\<close>; numpy arrays
  are lists and floats are read as real numbers. \<open>P0_diag\<close> is the prior diagonal kept to
  floor the precision.
\<close>

record logistic_laplace_ts =
  feature_dim :: nat
  mu :: "real list"
  Pd :: "real list"
  discount :: real
  P0_diag :: "real list"

definition LogisticLaplaceTS_init :: "nat \<Rightarrow> real \<Rightarrow> logistic_laplace_ts" where
  "LogisticLaplaceTS_init n disc =
     \<lparr> feature_dim = n, mu = replicate n 0, Pd = replicate n 1,
       discount = disc, P0_diag = replicate n 1 \<rparr>"

text \<open>\<open>x @ y\<close> for two one-dimensional arrays, and the logistic function
  \<open>1 / (1 + np.exp(-z))\<close>.\<close>

definition vdot :: "real list \<Rightarrow> real list \<Rightarrow> real" where
  "vdot x y = sum_list (map2 (*) x y)"

definition sigmoid :: "real \<Rightarrow> real" where
  "sigmoid z = 1 / (1 + exp (- z))"

text \<open>
  \<open>update(feature_vector, reward)\<close>, statement by statement. numpy raises \<open>ValueError\<close> when
  the shapes of two operands do not agree; the arrays of one bandit all have length
  \<open>feature_dim\<close>, so the shape tests below compare with the feature vector only.
\<close>

definition LogisticLaplaceTS_update ::
  "logistic_laplace_ts \<Rightarrow> real list \<Rightarrow> real \<Rightarrow> py_error + logistic_laplace_ts" where
  "LogisticLaplaceTS_update m fv reward =
     (let x = fv;
          Pd1 = (if 0 < discount m \<and> discount m < 1
                 then map2 max (map (\<lambda>p. p * discount m) (Pd m)) (P0_diag m)
                 else Pd m)
      in if length x \<noteq> length (mu m) then Inl ValueError
         else (let sg = sigmoid (vdot x (mu m))
               in if length x \<noteq> length Pd1 then Inl ValueError
                  else (let Pd2 = map2 (+) Pd1 (map (\<lambda>xi. xi ^ 2 * sg * (1 - sg)) x);
                            grad = map (\<lambda>xi. (sg - reward) * xi) x;
                            mu2 = map2 (-) (mu m) (map2 (/) grad Pd2)
                        in Inr (m\<lparr> Pd := Pd2, mu := mu2 \<rparr>))))"

text \<open>The dictionary \<open>{"mu", "Pd"}\<close> that \<open>update\<close> returns: copies of the new arrays.\<close>

definition LogisticLaplaceTS_params :: "logistic_laplace_ts \<Rightarrow> real list \<times> real list" where
  "LogisticLaplaceTS_params m = (mu m, Pd m)"





subsection \<open>The four steps of the update as the specification words them\<close>

text \<open>Step 1: if \<open>0 < discount < 1\<close>, a diagonal precision entry is multiplied by the
  discount and floored at the prior precision.\<close>

definition spec_decay :: "real \<Rightarrow> real \<Rightarrow> real \<Rightarrow> real" where
  "spec_decay disc p0 p = (if 0 < disc \<and> disc < 1 then max (p * disc) p0 else p)"

text \<open>Step 2: \<open>\<sigma>\<close> is the sigmoid of \<open>x \<cdot> mu\<close>, with the mean before the update.\<close>

definition spec_sigma :: "real list \<Rightarrow> real list \<Rightarrow> real" where
  "spec_sigma x mu_old = 1 / (1 + exp (- (\<Sum>j<length x. x ! j * mu_old ! j)))"

text \<open>Step 3: precision += \<open>x\<^sup>2 \<cdot> \<sigma> \<cdot> (1 - \<sigma>)\<close>.\<close>

definition spec_precision :: "real \<Rightarrow> real \<Rightarrow> real \<Rightarrow> real" where
  "spec_precision p xi sg = p + xi ^ 2 * sg * (1 - sg)"

text \<open>Step 4: mean -= \<open>(\<sigma> - reward) \<cdot> x / precision\<close>, with the precision of step 3.\<close>

definition spec_mean :: "real \<Rightarrow> real \<Rightarrow> real \<Rightarrow> real \<Rightarrow> real \<Rightarrow> real" where
  "spec_mean mu_i sg reward xi p_new = mu_i - (sg - reward) * xi / p_new"

section \<open>Configuration (cs\_module/config.py)\<close>

definition PERSONAL_DATA_FEATURES :: "string list" where
  "PERSONAL_DATA_FEATURES = [''gender'', ''userAge'', ''education'', ''recruitmentCenter'']"

definition PERSONAL_DATA_CATEGORICAL_FEATURES :: "(string, string list) pydict" where
  "PERSONAL_DATA_CATEGORICAL_FEATURES =
     [(''gender'', [''female'', ''male'', ''decline'', ''other'']),
      (''recruitmentCenter'', [''IEO'', ''ICO'', ''UMFCD'', ''UNIPA'']),
      (''education'', [''no-education'', ''primary'', ''secondary'', ''vocational'', ''university'',
                      ''postgraduate'', ''other''])]"

definition CATEGORICAL_TO_NUMERIC :: "string list" where
  "CATEGORICAL_TO_NUMERIC = [''education'', ''gender'']"

definition CATEGORICAL_TO_NUMERIC_EXPLICIT :: "(string, (string, real) pydict) pydict" where
  "CATEGORICAL_TO_NUMERIC_EXPLICIT =
     [(''gender'', [(''female'', 0), (''decline'', 1 / 2), (''other'', 1 / 2), (''male'', 1)])]"

definition NUMERIC_FEATURES_MIN_MAX :: "(string, real \<times> real) pydict" where
  "NUMERIC_FEATURES_MIN_MAX = [(''userAge'', (45, 80))]"

definition PILLARS :: "string list" where
  "PILLARS = [''smoking'', ''alcohol'', ''nutrition'', ''physical_activity'', ''emotional_wellbeing'']"

definition INTERVENTION_TYPES :: "string list" where
  "INTERVENTION_TYPES =
     [''Education'', ''Enablement'', ''Environmental Restructuring'', ''Incentivisation'',
      ''Modelling'', ''Training'', ''Persuasion'', ''Restrictions'']"

definition LEAVE_OUT_VARS :: "(string, string list) pydict" where
  "LEAVE_OUT_VARS =
     [(''recruitmentCenter'', [''IEO'']), (''education'', [''other'']), (''pillar'', [''smoking''])]"

definition MAX_SAME_REC_SENT_PER_MISSION :: nat where
  "MAX_SAME_REC_SENT_PER_MISSION = 3"

definition MAX_NUM_REC_PER_MISSION :: nat where
  "MAX_NUM_REC_PER_MISSION = 10"



definition FREQUENCY_FEATURE_DEGREES :: "(string, nat) pydict" where
  "FREQUENCY_FEATURE_DEGREES = [(''MF'', 1), (''TF'', 1), (''IF'', 1), (''RF'', 1)]"

definition INTERVENTION_MAB_FEATURES :: "(string, bool) pydict" where
  "INTERVENTION_MAB_FEATURES =
     [(''D'', True), (''H'', True), (''ND'', True), (''P'', True), (''MF'', True), (''TF'', True),
      (''IT'', True), (''NIT'', True), (''IF'', True), (''RF'', True), (''ER'', False),
      (''PR'', True), (''MS'', False),
      (''MF_x_TF_sched'', False), (''MF_x_RF_sched'', True), (''MF_x_IF_sched'', True),
      (''AGEc_x_RF_sched'', True), (''AGEc_x_IT'', True), (''H_c_x_RF_sched'', False),
      (''H_c_x_IT'', False), (''NIT_x_IF_sched'', False)]"

section \<open>Feature pipeline (cs\_module/utils/encoding.py)\<close>

text \<open>\<open>d.get(key, [])\<close> on a dictionary of lists, \<open>flags.get(key, False)\<close> on a dictionary
  of flags, and \<open>xs.index(x)\<close> for an \<open>x\<close> that occurs in \<open>xs\<close>.\<close>

definition get_list :: "('k, 'a list) pydict \<Rightarrow> 'k \<Rightarrow> 'a list" where
  "get_list d k = (case dict_get d k of None \<Rightarrow> [] | Some v \<Rightarrow> v)"

definition get_flag :: "(string, bool) pydict \<Rightarrow> string \<Rightarrow> bool" where
  "get_flag d k = (case dict_get d k of None \<Rightarrow> False | Some v \<Rightarrow> v)"

fun list_index :: "'a list \<Rightarrow> 'a \<Rightarrow> nat" where
  "list_index [] x = 0"
| "list_index (y # ys) x = (if y = x then 0 else Suc (list_index ys x))"

definition one_hot_encode :: "string \<Rightarrow> string list \<Rightarrow> real list" where
  "one_hot_encode v all_values = map (\<lambda>w. if v = w then 1 else 0) all_values"

text \<open>\<open>encode_frequency\<close>: clip, then one normalised power per degree \<open>1..degree\<close>.\<close>

definition encode_frequency :: "real \<Rightarrow> nat \<Rightarrow> real \<Rightarrow> real \<Rightarrow> real list" where
  "encode_frequency val degree min_val max_val =
     (let v = max min_val (min max_val val)
      in map (\<lambda>d. (v ^ d - min_val ^ d) / (max_val ^ d - min_val ^ d)) [1..<degree + 1])"

definition center :: "real \<Rightarrow> real" where
  "center x = x - 1 / 2"

text \<open>
  Modelled from the spec: \<open>min_max_norm\<close> (module \<open>cs_module/utils/min_max_norm.py\<close>) is
  imported by the encoder and is not among the sources; the specification says that
  numeric attributes are min-max normalised against fixed bounds and clipped to \<open>[0, 1]\<close>.
\<close>

definition min_max_norm :: "real \<Rightarrow> real \<Rightarrow> real \<Rightarrow> real" where
  "min_max_norm v a b = max 0 (min 1 ((v - a) / (b - a)))"

text \<open>The profile as the encoder reads it: categorical attributes are strings, the other
  attributes numbers.\<close>

definition pd_categorical :: "personal_data \<Rightarrow> string \<Rightarrow> string option" where
  "pd_categorical pd feature =
     (if feature = ''gender'' then gender pd
      else if feature = ''education'' then education pd
      else if feature = ''recruitmentCenter'' then recruitmentCenter pd
      else None)"

definition pd_numeric :: "personal_data \<Rightarrow> string \<Rightarrow> real option" where
  "pd_numeric pd feature = (if feature = ''userAge'' then userAge pd else None)"

definition get_personal_data_labels :: "string list" where
  "get_personal_data_labels =
     concat (map (\<lambda>feature.
        if feature \<in> set (dict_keys PERSONAL_DATA_CATEGORICAL_FEATURES)
        then (if feature \<in> set CATEGORICAL_TO_NUMERIC then [feature]
              else filter (\<lambda>v. v \<notin> set (get_list LEAVE_OUT_VARS feature))
                     (get_list PERSONAL_DATA_CATEGORICAL_FEATURES feature))
        else [feature]) PERSONAL_DATA_FEATURES)"

text \<open>One round of the loop of \<open>get_personal_data_encoding\<close>: the value \<open>val\<close> of one
  feature, as the list that is appended to or extended onto \<open>enc\<close>.\<close>

definition encode_personal_feature :: "personal_data \<Rightarrow> string \<Rightarrow> real list" where
  "encode_personal_feature pd feature =
     (if feature \<in> set (dict_keys PERSONAL_DATA_CATEGORICAL_FEATURES)
      then (let vals = filter (\<lambda>v. v \<notin> set (get_list LEAVE_OUT_VARS feature))
                         (get_list PERSONAL_DATA_CATEGORICAL_FEATURES feature)
            in if feature \<in> set CATEGORICAL_TO_NUMERIC
               then (case pd_categorical pd feature of
                       None \<Rightarrow> [1 / 2]
                     | Some s \<Rightarrow>
                         (case dict_get CATEGORICAL_TO_NUMERIC_EXPLICIT feature of
                            Some table \<Rightarrow> [case dict_get table s of None \<Rightarrow> 1 / 2 | Some r \<Rightarrow> r]
                          | None \<Rightarrow>
                              [if s \<notin> set vals then 1 / 2
                               else real (list_index vals s) / (real (length vals) - 1)]))
               else (case pd_categorical pd feature of
                       None \<Rightarrow> replicate (length vals) 0
                     | Some s \<Rightarrow> if s \<notin> set vals then replicate (length vals) 0
                                else one_hot_encode s vals))
      else (case pd_numeric pd feature of
              None \<Rightarrow> [1 / 2]
            | Some v \<Rightarrow>
                (case dict_get NUMERIC_FEATURES_MIN_MAX feature of
                   Some (a, b) \<Rightarrow> [min_max_norm v a b]
                 | None \<Rightarrow> [v])))"

definition get_personal_data_encoding :: "personal_data \<Rightarrow> real list" where
  "get_personal_data_encoding pd = concat (map (encode_personal_feature pd) PERSONAL_DATA_FEATURES)"

definition get_hhs_encoding :: "(string \<rightharpoonup> real) \<Rightarrow> real list" where
  "get_hhs_encoding hhs = map (\<lambda>p. (case hhs p of None \<Rightarrow> 50 | Some v \<Rightarrow> v) / 100) PILLARS"

definition get_hhs_current_encoding :: "(string \<rightharpoonup> real) \<Rightarrow> string \<Rightarrow> real list" where
  "get_hhs_current_encoding hhs pillar = [(case hhs pillar of None \<Rightarrow> 50 | Some v \<Rightarrow> v) / 100]"

definition get_num_intervention_days_encoding :: "int option \<Rightarrow> real list" where
  "get_num_intervention_days_encoding days =
     (case days of None \<Rightarrow> [0] | Some d \<Rightarrow> [max 0 (min 1 (real_of_int d / (12 * 7)))])"

definition get_pillar_encoding :: "string \<Rightarrow> py_error + real list" where
  "get_pillar_encoding pillar =
     (if pillar \<notin> set PILLARS then Inl ValueError
      else Inr (one_hot_encode pillar
                  (filter (\<lambda>p. p \<notin> set (get_list LEAVE_OUT_VARS ''pillar'')) PILLARS)))"

definition frequency_degree :: "string \<Rightarrow> nat" where
  "frequency_degree k = (case dict_get FREQUENCY_FEATURE_DEGREES k of None \<Rightarrow> 0 | Some d \<Rightarrow> d)"

definition get_mission_frequency_encoding :: "real \<Rightarrow> real list" where
  "get_mission_frequency_encoding mf = encode_frequency mf (frequency_degree ''MF'') 1 7"

definition get_total_frequency_encoding :: "real \<Rightarrow> bool \<Rightarrow> real list" where
  "get_total_frequency_encoding x scheduled =
     (let cap_v = (if scheduled then real MAX_NUM_REC_PER_MISSION - 1 else real MAX_NUM_REC_PER_MISSION)
      in encode_frequency x (frequency_degree ''TF'') 0 cap_v)"

text \<open>\<open>get_intervention_encoding\<close>: a list with a type outside \<open>INTERVENTION_TYPES\<close> raises
  \<open>ValueError\<close>; otherwise the multi-hot vector is divided by its sum, or is all zero when
  the list is empty (or \<open>None\<close>, read as the empty list).\<close>

definition get_intervention_encoding :: "string list \<Rightarrow> py_error + real list" where
  "get_intervention_encoding intervention =
     (if \<not> list_all (\<lambda>i. i \<in> set INTERVENTION_TYPES) intervention then Inl ValueError
      else (let mh = map (\<lambda>i. if i \<in> set intervention then (1::real) else 0) INTERVENTION_TYPES;
                s = sum_list mh
            in if s = 0 then Inr (replicate (length INTERVENTION_TYPES) 0)
               else Inr (map (\<lambda>x. x / s) mh)))"

definition get_num_int_types_encoding :: "string list \<Rightarrow> real list" where
  "get_num_int_types_encoding intervention =
     [real (length intervention) / real (length INTERVENTION_TYPES)]"

definition get_intervention_frequency_encoding :: "real \<Rightarrow> bool \<Rightarrow> real list" where
  "get_intervention_frequency_encoding x scheduled =
     (let cap_v = (if scheduled then real MAX_NUM_REC_PER_MISSION - 1 else real MAX_NUM_REC_PER_MISSION)
      in encode_frequency x (frequency_degree ''IF'') 0 cap_v)"

definition get_recommendation_frequency_encoding :: "real \<Rightarrow> bool \<Rightarrow> real list" where
  "get_recommendation_frequency_encoding x scheduled =
     (let cap_v = (if scheduled then real MAX_SAME_REC_SENT_PER_MISSION - 1
                   else real MAX_SAME_REC_SENT_PER_MISSION)
      in encode_frequency x (frequency_degree ''RF'') 0 cap_v)"

definition get_engagement_rate_encoding :: "real option \<Rightarrow> real list" where
  "get_engagement_rate_encoding er_value =
     [case er_value of None \<Rightarrow> 1 / 2 | Some v \<Rightarrow> max 0 (min 1 v)]"

definition get_prompted_encoding :: "bool \<Rightarrow> real list" where
  "get_prompted_encoding prompted_flag = [if prompted_flag then 1 else 0]"


text \<open>\<open>BASE_LABELS\<close>, in the order of the dictionary literal (the order of the output), and
  \<open>BASE_DIMENSIONS = {k: len(v)}\<close>.\<close>

definition BASE_LABELS :: "(string, string list) pydict" where
  "BASE_LABELS =
     [(''D'', get_personal_data_labels),
      (''H'', PILLARS),
      (''Hc'', [''hhs_current'']),
      (''ND'', [''num_intervention_days'']),
      (''P'', map (\<lambda>p. ''pillar_'' @ p) (filter (\<lambda>p. p \<notin> set (get_list LEAVE_OUT_VARS ''pillar'')) PILLARS)),
      (''MF'', [''mission_frequency'']),
      (''TF'', [''TF_past'', ''TF_sched'']),
      (''IT'', map (\<lambda>t. ''IT_'' @ t) INTERVENTION_TYPES),
      (''NIT'', [''num_int_types'']),
      (''IF'', [''IF_past'', ''IF_sched'']),
      (''RF'', [''RF_past'', ''RF_sched'']),
      (''ER'', [''engagement_rate_past'']),
      (''PR'', [''prompted'']),
      (''MS'', [''prev_mission_score''])]"

definition BASE_DIMENSIONS :: "(string, nat) pydict" where
  "BASE_DIMENSIONS = map (\<lambda>(k, v). (k, length v)) BASE_LABELS"

text \<open>\<open>BASE_DIMENSIONS[key]\<close>; every key the code looks up is a key of \<open>BASE_LABELS\<close>.\<close>

definition base_dimension :: "string \<Rightarrow> nat" where
  "base_dimension k = (case dict_get BASE_DIMENSIONS k of None \<Rightarrow> 0 | Some n \<Rightarrow> n)"

definition INTERACTION_PAIRS :: "(string, string \<times> string) pydict" where
  "INTERACTION_PAIRS =
     [(''D_H'', (''D'', ''H'')), (''D_P'', (''D'', ''P'')), (''D_IT'', (''D'', ''IT'')),
      (''D_MF'', (''D'', ''MF'')), (''D_TF'', (''D'', ''TF'')), (''D_IF'', (''D'', ''IF'')),
      (''D_RF'', (''D'', ''RF'')), (''P_IT'', (''P'', ''IT'')), (''P_MF'', (''P'', ''MF'')),
      (''P_TF'', (''P'', ''TF'')), (''P_IF'', (''P'', ''IF'')), (''I_IF'', (''IT'', ''IF'')),
      (''I_RF'', (''IT'', ''RF''))]"

text \<open>
  \<open>get_dim_intervention_feature_vector(include_bias=True)\<close>. The flag dictionary
  \<open>INTERVENTION_MAB_FEATURES\<close> is a module constant in the source; it is a parameter here
  (\<open>flags\<close>) so that results can be stated for every schema, and the functions of the
  source are the instances at the constant.
\<close>

definition dim_for :: "(string, bool) pydict \<Rightarrow> bool \<Rightarrow> nat" where
  "dim_for flags include_bias =
     (if include_bias then 1 else 0)
     + sum_list (map (\<lambda>key. base_dimension key) (filter (get_flag flags) (dict_keys BASE_LABELS)))
     + (if get_flag flags ''MF_x_TF_sched'' then 1 else 0)
     + (if get_flag flags ''MF_x_RF_sched'' then 1 else 0)
     + (if get_flag flags ''MF_x_IF_sched'' then 1 else 0)
     + (if get_flag flags ''NIT_x_IF_sched'' then 1 else 0)
     + (if get_flag flags ''AGEc_x_RF_sched'' then 1 else 0)
     + (if get_flag flags ''AGEc_x_IT'' then length INTERVENTION_TYPES else 0)
     + (if get_flag flags ''HHS_c_x_RF_sched'' then 1 else 0)
     + (if get_flag flags ''HHS_c_x_IT'' then length INTERVENTION_TYPES else 0)
     + sum_list (map (\<lambda>(inter_key, (a, b)). base_dimension a * base_dimension b)
                     (filter (\<lambda>(inter_key, ab). get_flag flags inter_key) INTERACTION_PAIRS))"

definition get_dim_intervention_feature_vector :: "bool \<Rightarrow> nat" where
  "get_dim_intervention_feature_vector include_bias = dim_for INTERVENTION_MAB_FEATURES include_bias"

text \<open>The arguments of \<open>get_intervention_feature_vector\<close>. \<open>in_intervention\<close> is the item's
  type list (\<open>None\<close> read as empty); \<open>in_prev_mission_score\<close> is \<open>None\<close> when the last
  "mission accomplished" event carried no score.\<close>

record fv_input =
  in_personal_data :: personal_data
  in_hhs :: "string \<rightharpoonup> real"
  in_num_intervention_days :: "int option"
  in_pillar :: string
  in_mission_frequency :: real
  in_total_frequency_past_week :: real
  in_total_frequency_scheduled :: real
  in_intervention :: "string list"
  in_intervention_frequency_past_week :: real
  in_intervention_frequency_scheduled :: real
  in_recommendation_frequency_past_week :: real
  in_recommendation_frequency_scheduled :: real
  in_er_past_value :: "real option"
  in_prompted :: bool
  in_prev_mission_score :: "real option"

text \<open>The tuple \<open>D, H, Hc, ND, P, MF, TF, IT, NIT, IF, RF, ER, PR, MS\<close> of \<open>get_encodings\<close>, as
  the dictionary \<open>base_parts\<close> keyed like \<open>BASE_LABELS\<close>. The blocks are computed in this
  order, so the first block that raises decides the exception; \<open>float(None)\<close> raises
  \<open>TypeError\<close>.\<close>

definition get_encodings :: "fv_input \<Rightarrow> py_error + (string, real list) pydict" where
  "get_encodings inp =
     (let D = get_personal_data_encoding (in_personal_data inp);
          H = get_hhs_encoding (in_hhs inp);
          Hc = get_hhs_current_encoding (in_hhs inp) (in_pillar inp);
          ND = get_num_intervention_days_encoding (in_num_intervention_days inp)
      in case get_pillar_encoding (in_pillar inp) of
           Inl e \<Rightarrow> Inl e
         | Inr P \<Rightarrow>
            (let MF = get_mission_frequency_encoding (in_mission_frequency inp);
                 TF = get_total_frequency_encoding (in_total_frequency_past_week inp) False
                      @ get_total_frequency_encoding (in_total_frequency_scheduled inp) True
             in case get_intervention_encoding (in_intervention inp) of
                  Inl e \<Rightarrow> Inl e
                | Inr IT \<Rightarrow>
                   (let NIT = get_num_int_types_encoding (in_intervention inp);
                        IF = get_intervention_frequency_encoding (in_intervention_frequency_past_week inp) False
                             @ get_intervention_frequency_encoding (in_intervention_frequency_scheduled inp) True;
                        RF = get_recommendation_frequency_encoding (in_recommendation_frequency_past_week inp) False
                             @ get_recommendation_frequency_encoding (in_recommendation_frequency_scheduled inp) True;
                        ER = get_engagement_rate_encoding
                               (Some (case in_er_past_value inp of None \<Rightarrow> 0 | Some v \<Rightarrow> v));
                        PR = get_prompted_encoding (in_prompted inp)
                    in case in_prev_mission_score inp of
                         None \<Rightarrow> Inl TypeError
                       | Some sc \<Rightarrow>
                           Inr [(''D'', D), (''H'', H), (''Hc'', Hc), (''ND'', ND), (''P'', P),
                                (''MF'', MF), (''TF'', TF), (''IT'', IT), (''NIT'', NIT), (''IF'', IF),
                                (''RF'', RF), (''ER'', ER), (''PR'', PR), (''MS'', [max 0 (min 1 sc)])])))"

text \<open>\<open>xs[i]\<close> raises \<open>IndexError\<close> out of range; \<open>xs.index(x)\<close> raises \<open>ValueError\<close> when \<open>x\<close>
  does not occur.\<close>

definition py_nth :: "'a list \<Rightarrow> nat \<Rightarrow> py_error + 'a" where
  "py_nth xs i = (if i < length xs then Inr (xs ! i) else Inl IndexError)"

definition py_index :: "'a list \<Rightarrow> 'a \<Rightarrow> py_error + nat" where
  "py_index xs x = (if x \<in> set xs then Inr (list_index xs x) else Inl ValueError)"

definition get_age_centered :: "real list \<Rightarrow> py_error + real" where
  "get_age_centered D =
     (case py_index (get_list BASE_LABELS ''D'') ''userAge'' of
        Inl e \<Rightarrow> Inl e
      | Inr age_idx \<Rightarrow> (case py_nth D age_idx of Inl e \<Rightarrow> Inl e | Inr v \<Rightarrow> Inr (center v)))"

definition get_hhs_current_centered :: "real list \<Rightarrow> string \<Rightarrow> py_error + real" where
  "get_hhs_current_centered H pillar =
     (case py_index PILLARS pillar of
        Inl e \<Rightarrow> Inl e
      | Inr idx \<Rightarrow> (case py_nth H idx of Inl e \<Rightarrow> Inl e | Inr v \<Rightarrow> Inr (center v)))"

text \<open>
  \<open>get_intervention_feature_vector\<close>: the bias, the enabled base blocks in the order of
  \<open>BASE_LABELS\<close>, the enabled custom interactions, the enabled cartesian families. The
  blocks are read from \<open>base_parts\<close> (a missing key reads as the empty block; every key
  looked up is present).
\<close>

definition feature_vector_for :: "(string, bool) pydict \<Rightarrow> fv_input \<Rightarrow> py_error + real list" where
  "feature_vector_for flags inp =
     (case get_encodings inp of
        Inl e \<Rightarrow> Inl e
      | Inr base_parts \<Rightarrow>
         (let blk = get_list base_parts;
              fv1 = [1] @ concat (map blk (filter (get_flag flags) (dict_keys BASE_LABELS)))
          in case (py_nth (blk ''TF'') 1, py_nth (blk ''RF'') 1, py_nth (blk ''IF'') 1,
                   py_nth (blk ''MF'') 0, py_nth (blk ''NIT'') 0) of
               (Inr TF_sched, Inr RF_sched, Inr IF_sched, Inr MF0, Inr NIT0) \<Rightarrow>
                 (let fv2 = fv1
                        @ (if get_flag flags ''MF_x_TF_sched'' then [MF0 * TF_sched] else [])
                        @ (if get_flag flags ''MF_x_RF_sched'' then [MF0 * RF_sched] else [])
                        @ (if get_flag flags ''MF_x_IF_sched'' then [MF0 * IF_sched] else [])
                        @ (if get_flag flags ''NIT_x_IF_sched'' then [NIT0 * IF_sched] else [])
                  in case get_age_centered (blk ''D'') of
                       Inl e \<Rightarrow> Inl e
                     | Inr age_c \<Rightarrow>
                        (let fv3 = fv2
                               @ (if get_flag flags ''AGEc_x_RF_sched'' then [age_c * RF_sched] else [])
                               @ (if get_flag flags ''AGEc_x_IT'' then map (\<lambda>w. age_c * w) (blk ''IT'') else [])
                         in if get_flag flags ''HHS_c_x_RF_sched'' \<or> get_flag flags ''HHS_c_x_IT''
                            then (case get_hhs_current_centered (blk ''H'') (in_pillar inp) of
                                    Inl e \<Rightarrow> Inl e
                                  | Inr hhs_c \<Rightarrow>
                                      Inr (fv3
                                        @ (if get_flag flags ''HHS_c_x_RF_sched'' then [hhs_c * RF_sched] else [])
                                        @ (if get_flag flags ''HHS_c_x_IT'' then map (\<lambda>w. hhs_c * w) (blk ''IT'') else [])
                                        @ concat (map (\<lambda>(inter_key, (a, b)).
                                                         map (\<lambda>(x, y). x * y) (List.product (blk a) (blk b)))
                                                   (filter (\<lambda>(inter_key, ab). get_flag flags inter_key) INTERACTION_PAIRS))))
                            else Inr (fv3
                                        @ concat (map (\<lambda>(inter_key, (a, b)).
                                                         map (\<lambda>(x, y). x * y) (List.product (blk a) (blk b)))
                                                   (filter (\<lambda>(inter_key, ab). get_flag flags inter_key) INTERACTION_PAIRS)))))
             | _ \<Rightarrow> Inl IndexError))"

definition get_intervention_feature_vector :: "fv_input \<Rightarrow> py_error + real list" where
  "get_intervention_feature_vector inp = feature_vector_for INTERVENTION_MAB_FEATURES inp"

subsection \<open>Example input of the feature pipeline\<close>

definition example_fv_input :: fv_input where
  "example_fv_input =
     \<lparr> in_personal_data = example_personal_data,
       in_hhs = [''smoking'' \<mapsto> 40],
       in_num_intervention_days = Some 21,
       in_pillar = ''smoking'',
       in_mission_frequency = 4,
       in_total_frequency_past_week = 5,
       in_total_frequency_scheduled = 3,
       in_intervention = [''Education'', ''Training''],
       in_intervention_frequency_past_week = 2,
       in_intervention_frequency_scheduled = 1,
       in_recommendation_frequency_past_week = 1,
       in_recommendation_frequency_scheduled = 1,
       in_er_past_value = None,
       in_prompted = False,
       in_prev_mission_score = Some 0 \<rparr>"

section \<open>Selecting one recommendation (cs\_module/content\_selection/selector.py)\<close>





section \<open>Frequency offsets and availability (frequency\_updaters.py, feature\_builders.py, user.py)\<close>












section \<open>Slate generation (cs\_module/content\_selection/engine.py)\<close>












section \<open>Quantities of a slate\<close>







section \<open>A history of calls\<close>


section \<open>An example call\<close>





section \<open>The rounds of a call\<close>







chapter \<open>Verified properties\<close>

section \<open>Properties of the decision binder\<close>

lemma bind_scan_bound:
  "bind_scan rid mid dq (Some s) acc = (Some s, acc @ dq)"
  by (induction dq arbitrary: acc) auto

lemma bind_scan_no_match:
  "\<forall>x\<in>set dq. \<not> snap_matches rid mid x \<Longrightarrow> bind_scan rid mid dq None acc = (None, acc @ dq)"
  by (induction dq arbitrary: acc) auto

lemma bind_scan_first:
  "\<forall>x\<in>set pre. \<not> snap_matches rid mid x \<Longrightarrow> snap_matches rid mid s \<Longrightarrow>
   bind_scan rid mid (pre @ s # post) None acc = (Some s, acc @ pre @ post)"
  by (induction pre arbitrary: acc) (auto simp: bind_scan_bound)

lemma bind_on_sent_found:
  assumes "pending b u p = pre @ s # post"
    and "\<forall>x\<in>set pre. \<not> snap_matches rid mid x"
    and "snap_matches rid mid s"
  shows "bind_on_sent b u p rid mid pid =
           (Some s, b\<lparr> pending := (pending b)(u := (pending b u)(p := pre @ post)),
                       proc_map := dict_set pid s (proc_map b) \<rparr>)"
  using assms by (simp add: bind_on_sent_def bind_scan_first)

lemma bind_on_sent_not_found:
  assumes "\<forall>x\<in>set (pending b u p). \<not> snap_matches rid mid x"
  shows "bind_on_sent b u p rid mid pid = (None, b)"
proof -
  have "(pending b)(u := (pending b u)(p := pending b u p)) = pending b"
    by (simp add: fun_eq_iff)
  then show ?thesis
    using assms by (simp add: bind_on_sent_def bind_scan_no_match)
qed

text \<open>
  Claim C3. For every pending queue \<open>pending b u p\<close>: \<open>bind_on_sent\<close> consumes exactly the
  first pending snapshot whose \<open>rec_id\<close> equals the event's item id (and whose \<open>mission_id\<close>
  equals the event's mission id when one is given), returns it, keeps the other snapshots in
  their order and records the snapshot under the process id; a bind that finds no matching
  snapshot returns \<open>None\<close> and leaves the whole binder unchanged; and when three decisions
  for the same item are enqueued behind a queue that holds no match, three binds in sequence
  (under any process ids) return the first, the second and the third, in that order, and
  the queue is back to what it was.
\<close>

theorem bind_on_sent_fifo:
  "(\<forall>pre s post.
      pending b u p = pre @ s # post \<and> (\<forall>x\<in>set pre. \<not> snap_matches rid mid x) \<and> snap_matches rid mid s
      \<longrightarrow> bind_on_sent b u p rid mid pid =
            (Some s, b\<lparr> pending := (pending b)(u := (pending b u)(p := pre @ post)),
                        proc_map := dict_set pid s (proc_map b) \<rparr>))
   \<and> ((\<forall>x\<in>set (pending b u p). \<not> snap_matches rid mid x)
        \<longrightarrow> bind_on_sent b u p rid mid pid = (None, b))
   \<and> ((\<forall>x\<in>set (pending b u p). \<not> snap_matches rid mid x)
        \<and> snap_matches rid mid s1 \<and> snap_matches rid mid s2 \<and> snap_matches rid mid s3
        \<longrightarrow> (let b3 = enqueue_decision (enqueue_decision (enqueue_decision b u p s1) u p s2) u p s3;
                 (r1, c1) = bind_on_sent b3 u p rid mid pid1;
                 (r2, c2) = bind_on_sent c1 u p rid mid pid2;
                 (r3, c3) = bind_on_sent c2 u p rid mid pid3
             in r1 = Some s1 \<and> r2 = Some s2 \<and> r3 = Some s3 \<and> pending c3 = pending b))"
proof (intro conjI allI impI)
  fix pre s post
  assume "pending b u p = pre @ s # post \<and> (\<forall>x\<in>set pre. \<not> snap_matches rid mid x) \<and> snap_matches rid mid s"
  then show "bind_on_sent b u p rid mid pid =
            (Some s, b\<lparr> pending := (pending b)(u := (pending b u)(p := pre @ post)),
                        proc_map := dict_set pid s (proc_map b) \<rparr>)"
    by (simp add: bind_on_sent_found)
next
  assume "\<forall>x\<in>set (pending b u p). \<not> snap_matches rid mid x"
  then show "bind_on_sent b u p rid mid pid = (None, b)"
    by (rule bind_on_sent_not_found)
next
  assume a: "(\<forall>x\<in>set (pending b u p). \<not> snap_matches rid mid x)
        \<and> snap_matches rid mid s1 \<and> snap_matches rid mid s2 \<and> snap_matches rid mid s3"
  define q where "q = pending b u p"
  define b3 where "b3 = enqueue_decision (enqueue_decision (enqueue_decision b u p s1) u p s2) u p s3"
  have nm: "\<forall>x\<in>set q. \<not> snap_matches rid mid x" using a by (simp add: q_def)
  have q3: "pending b3 u p = q @ s1 # [s2, s3]"
    by (simp add: b3_def enqueue_decision_def q_def)
  define c1 where "c1 = b3\<lparr> pending := (pending b3)(u := (pending b3 u)(p := q @ [s2, s3])),
                        proc_map := dict_set pid1 s1 (proc_map b3) \<rparr>"
  have r1: "bind_on_sent b3 u p rid mid pid1 = (Some s1, c1)"
    unfolding c1_def using q3 nm a by (intro bind_on_sent_found) auto
  have q2: "pending c1 u p = q @ s2 # [s3]" by (simp add: c1_def)
  define c2 where "c2 = c1\<lparr> pending := (pending c1)(u := (pending c1 u)(p := q @ [s3])),
                        proc_map := dict_set pid2 s2 (proc_map c1) \<rparr>"
  have r2: "bind_on_sent c1 u p rid mid pid2 = (Some s2, c2)"
    unfolding c2_def using q2 nm a by (intro bind_on_sent_found) auto
  have q1: "pending c2 u p = q @ s3 # []" by (simp add: c2_def)
  define c3 where "c3 = c2\<lparr> pending := (pending c2)(u := (pending c2 u)(p := q @ [])),
                        proc_map := dict_set pid3 s3 (proc_map c2) \<rparr>"
  have r3: "bind_on_sent c2 u p rid mid pid3 = (Some s3, c3)"
    unfolding c3_def using q1 nm a by (intro bind_on_sent_found) auto
  have pend: "pending c3 = pending b"
    by (simp add: c3_def c2_def c1_def b3_def enqueue_decision_def q_def fun_eq_iff)
  show "(let b3 = enqueue_decision (enqueue_decision (enqueue_decision b u p s1) u p s2) u p s3;
                 (r1, c1) = bind_on_sent b3 u p rid mid pid1;
                 (r2, c2) = bind_on_sent c1 u p rid mid pid2;
                 (r3, c3) = bind_on_sent c2 u p rid mid pid3
             in r1 = Some s1 \<and> r2 = Some s2 \<and> r3 = Some s3 \<and> pending c3 = pending b)"
    using r1 r2 r3 pend by (simp add: b3_def [symmetric])
qed

theorem bind_on_sent_fifo_witness:
  "(let b3 = enqueue_decision (enqueue_decision (enqueue_decision example_binder
               ''u1'' (Some ''plan1'') (example_snap 1 ''X''))
               ''u1'' (Some ''plan1'') (example_snap 2 ''X''))
               ''u1'' (Some ''plan1'') (example_snap 3 ''X'');
        (r1, c1) = bind_on_sent b3 ''u1'' (Some ''plan1'') ''X'' (Some ''M1'') ''pid-c'';
        (r2, c2) = bind_on_sent c1 ''u1'' (Some ''plan1'') ''X'' (Some ''M1'') ''pid-a'';
        (r3, c3) = bind_on_sent c2 ''u1'' (Some ''plan1'') ''X'' (Some ''M1'') ''pid-b''
    in r1 = Some (example_snap 1 ''X'') \<and> r2 = Some (example_snap 2 ''X'')
       \<and> r3 = Some (example_snap 3 ''X'') \<and> pending c3 = pending example_binder)
   \<and> bind_on_sent example_binder ''u1'' (Some ''plan1'') ''X'' (Some ''M1'') ''pid-c''
       = (None, example_binder)
   \<and> fst (bind_on_sent example_binder ''u1'' (Some ''plan1'') ''Y'' None ''pid-d'')
       = Some (example_snap 7 ''Y'')"
proof -
  note t = bind_on_sent_fifo [of example_binder "''u1''" "Some ''plan1''" "''X''" "Some ''M1''" "''pid-c''"
      "example_snap 1 ''X''" "example_snap 2 ''X''" "example_snap 3 ''X''" "''pid-c''" "''pid-a''" "''pid-b''"]
  note t' = bind_on_sent_fifo [of example_binder "''u1''" "Some ''plan1''" "''Y''" None "''pid-d''"]
  have q: "pending example_binder ''u1'' (Some ''plan1'') = [example_snap 7 ''Y'']"
    by (simp add: example_binder_def enqueue_decision_def binder_init_def)
  have nm: "\<forall>x\<in>set (pending example_binder ''u1'' (Some ''plan1'')). \<not> snap_matches ''X'' (Some ''M1'') x"
    by (simp add: q snap_matches_def example_snap_def)
  have m: "snap_matches ''X'' (Some ''M1'') (example_snap n ''X'')" for n
    by (simp add: snap_matches_def example_snap_def)
  have 1: "bind_on_sent example_binder ''u1'' (Some ''plan1'') ''X'' (Some ''M1'') ''pid-c''
       = (None, example_binder)"
    using t nm by blast
  have 3: "(let b3 = enqueue_decision (enqueue_decision (enqueue_decision example_binder
               ''u1'' (Some ''plan1'') (example_snap 1 ''X''))
               ''u1'' (Some ''plan1'') (example_snap 2 ''X''))
               ''u1'' (Some ''plan1'') (example_snap 3 ''X'');
        (r1, c1) = bind_on_sent b3 ''u1'' (Some ''plan1'') ''X'' (Some ''M1'') ''pid-c'';
        (r2, c2) = bind_on_sent c1 ''u1'' (Some ''plan1'') ''X'' (Some ''M1'') ''pid-a'';
        (r3, c3) = bind_on_sent c2 ''u1'' (Some ''plan1'') ''X'' (Some ''M1'') ''pid-b''
    in r1 = Some (example_snap 1 ''X'') \<and> r2 = Some (example_snap 2 ''X'')
       \<and> r3 = Some (example_snap 3 ''X'') \<and> pending c3 = pending example_binder)"
    using t nm m by blast
  have "bind_on_sent example_binder ''u1'' (Some ''plan1'') ''Y'' None ''pid-d''
       = (Some (example_snap 7 ''Y''),
          example_binder\<lparr> pending := (pending example_binder)(''u1'' := (pending example_binder ''u1'')(Some ''plan1'' := [] @ [])),
                        proc_map := dict_set ''pid-d'' (example_snap 7 ''Y'') (proc_map example_binder) \<rparr>)"
    using t' [THEN conjunct1, rule_format, of "[]" "example_snap 7 ''Y''" "[]"] q
    by (simp add: snap_matches_def example_snap_def)
  then have 2: "fst (bind_on_sent example_binder ''u1'' (Some ''plan1'') ''Y'' None ''pid-d'')
       = Some (example_snap 7 ''Y'')" by simp
  from 1 2 3 show ?thesis by blast
qed

text \<open>
  Claim C4 (the capacity bound of \<open>proc_map\<close>) fails on \<open>bind_on_sent\<close>: the bound
  snapshot is written with \<open>self.proc_map[process_id] = bound\<close>, not through \<open>_remember\<close>,
  so nothing is evicted. With cap 1 and one entry already cached, a bind leaves two entries.
\<close>

theorem bind_on_sent_exceeds_cap:
  "(let b = (binder_init (Some 1) 200000)\<lparr> proc_map := [(''pid-0'', example_snap 1 ''A'')] \<rparr>;
        b1 = enqueue_decision b ''u1'' (Some ''plan1'') (example_snap 2 ''X'');
        (r, b2) = bind_on_sent b1 ''u1'' (Some ''plan1'') ''X'' (Some ''M1'') ''pid-1''
    in cap b2 = 1 \<and> int (length (proc_map b1)) = cap b1
       \<and> r = Some (example_snap 2 ''X'')
       \<and> dict_keys (proc_map b2) = [''pid-0'', ''pid-1''] \<and> int (length (proc_map b2)) > cap b2)"
  by (simp add: binder_init_def enqueue_decision_def bind_on_sent_def snap_matches_def example_snap_def dict_keys_def)

section \<open>Properties of the Beta-Bernoulli bandit\<close>

lemma initialize_action_frame:
  "b \<noteq> a \<Longrightarrow> alpha (initialize_action m a) b = alpha m b \<and> beta (initialize_action m a) b = beta m b"
  by (simp add: initialize_action_def)

lemma initialize_action_priors [simp]:
  "alpha_0 (initialize_action m a) = alpha_0 m" "beta_0 (initialize_action m a) = beta_0 m"
  by (simp_all add: initialize_action_def)

lemma initialize_action_dom:
  "dom (alpha m) = dom (beta m) \<Longrightarrow> dom (alpha (initialize_action m a)) = dom (beta (initialize_action m a))"
  by (auto simp: initialize_action_def)

lemma initialize_action_cases:
  "(alpha (initialize_action m a) b = alpha m b \<and> beta (initialize_action m a) b = beta m b) \<or>
   (alpha m b = None \<and> b = a \<and> alpha (initialize_action m a) b = Some (alpha_0 m)
      \<and> beta (initialize_action m a) b = Some (beta_0 m))"
  by (simp add: initialize_action_def)

lemma registered_only_refl: "registered_only m A m"
  by (simp add: registered_only_def)

lemma registered_only_step:
  assumes "registered_only (initialize_action m a) A m'" "a \<in> A"
  shows "registered_only m A m'"
  unfolding registered_only_def
proof (intro conjI allI)
  show "alpha_0 m' = alpha_0 m" "beta_0 m' = beta_0 m"
    using assms by (simp_all add: registered_only_def)
  fix b
  from assms(1) have
    h: "(alpha m' b = alpha (initialize_action m a) b \<and> beta m' b = beta (initialize_action m a) b) \<or>
          (alpha (initialize_action m a) b = None \<and> b \<in> A \<and> alpha m' b = Some (alpha_0 m) \<and> beta m' b = Some (beta_0 m))"
    by (simp add: registered_only_def)
  show "(alpha m' b = alpha m b \<and> beta m' b = beta m b) \<or>
          (alpha m b = None \<and> b \<in> A \<and> alpha m' b = Some (alpha_0 m) \<and> beta m' b = Some (beta_0 m))"
    using h initialize_action_cases [of m a b] assms(2)
    by (auto simp: initialize_action_def split: if_splits)
qed

lemma sample_loop_registered:
  "sample_loop draw i actions m sampled = (m', r) \<Longrightarrow> registered_only m (set actions) m'"
proof (induction actions arbitrary: i m sampled)
  case Nil
  then show ?case by (simp add: registered_only_refl)
next
  case (Cons a actions)
  let ?m1 = "initialize_action m a"
  have base: "registered_only m (set (a # actions)) ?m1"
    by (rule registered_only_step [where a = a]) (simp_all add: registered_only_refl)
  show ?case
  proof (cases "alpha ?m1 a")
    case None
    with Cons.prems base show ?thesis by (simp add: Let_def)
  next
    case (Some al)
    show ?thesis
    proof (cases "beta ?m1 a")
      case None
      with Some Cons.prems base show ?thesis by (simp add: Let_def)
    next
      case (Some be)
      show ?thesis
      proof (cases "al \<le> 0 \<or> be \<le> 0")
        case True
        with \<open>alpha ?m1 a = Some al\<close> Some Cons.prems base show ?thesis by (simp add: Let_def)
      next
        case False
        with \<open>alpha ?m1 a = Some al\<close> Some Cons.prems
        have "sample_loop draw (Suc i) actions ?m1 (dict_set a (draw i) sampled) = (m', r)"
          by (simp add: Let_def)
        then have "registered_only ?m1 (set actions) m'" by (rule Cons.IH)
        then have "registered_only ?m1 (set (a # actions)) m'"
          by (auto simp: registered_only_def)
        then show ?thesis by (rule registered_only_step) simp
      qed
    qed
  qed
qed

lemma select_action_registered:
  "BernoulliBetaTS_select_action m draw actions = (m', r) \<Longrightarrow> registered_only m (set actions) m'"
  by (auto simp: BernoulliBetaTS_select_action_def split: prod.splits sum.splits list.splits
      dest: sample_loop_registered)



lemma dict_set_keys: "fst ` set (dict_set k v d) = insert k (fst ` set d)"
  by (induction d) force+

lemma py_max_key_mem: "py_max_key f best xs \<in> set (best # xs)"
  by (induction xs arbitrary: best) (auto split: if_splits)

lemma sample_loop_keys:
  "sample_loop draw i actions m sampled = (m', Inr sampled') \<Longrightarrow>
   fst ` set sampled' = fst ` set sampled \<union> set actions \<and> set actions \<subseteq> dom (alpha m')"
proof (induction actions arbitrary: i m sampled)
  case Nil
  then show ?case by simp
next
  case (Cons a actions)
  let ?m1 = "initialize_action m a"
  from Cons.prems obtain al be where
    ab: "alpha ?m1 a = Some al" "beta ?m1 a = Some be" "\<not> (al \<le> 0 \<or> be \<le> 0)"
    and rec: "sample_loop draw (Suc i) actions ?m1 (dict_set a (draw i) sampled) = (m', Inr sampled')"
    by (auto simp: Let_def split: option.splits if_splits)
  from Cons.IH [OF rec] have
    k: "fst ` set sampled' = fst ` set (dict_set a (draw i) sampled) \<union> set actions"
    and d: "set actions \<subseteq> dom (alpha m')" by simp_all
  have "registered_only ?m1 (set actions) m'" using rec by (rule sample_loop_registered)
  then have "alpha m' a = alpha ?m1 a \<or> alpha m' a = Some (alpha_0 ?m1)"
    by (auto simp: registered_only_def)
  with ab have "a \<in> dom (alpha m')" by auto
  with k d show ?case by (auto simp: dict_set_keys)
qed

lemma select_action_best:
  assumes "BernoulliBetaTS_select_action m draw actions = (m', Inr (best, sampled))"
  shows "best \<in> set actions \<and> set actions \<subseteq> dom (alpha m')"
proof -
  from assms obtain kv rest where
    sl: "sample_loop draw 0 actions m [] = (m', Inr (kv # rest))"
    and b: "best = fst (py_max_key snd kv rest)"
    by (auto simp: BernoulliBetaTS_select_action_def split: prod.splits sum.splits list.splits)
  from sample_loop_keys [OF sl] have k: "fst ` set (kv # rest) = set actions"
    and d: "set actions \<subseteq> dom (alpha m')" by simp_all
  have "py_max_key snd kv rest \<in> set (kv # rest)" by (rule py_max_key_mem)
  then have "best \<in> fst ` set (kv # rest)" unfolding b by (rule imageI)
  with k d show ?thesis by simp
qed

text \<open>
  Claim C10. For every call \<open>update(a, r)\<close> on a bandit whose two dictionaries have the same
  keys: the call returns normally; an unseen action is first registered at the prior
  \<open>(alpha_0, beta_0)\<close>; then \<open>alpha[a]\<close> grows by one when \<open>r = 1\<close> and \<open>beta[a]\<close> grows by one
  otherwise, the other parameter of \<open>a\<close> keeps its value, the parameters of every other
  action and the priors are unchanged, and the two dictionaries still have the same keys.
  \<open>select_action\<close>, whatever its draws and whether or not it raises, changes the bandit at
  most by registering unseen candidate actions at the prior; when it returns, the chosen
  action is one of the candidates and every candidate is registered.
\<close>

theorem BernoulliBetaTS_update_frame:
  assumes inv: "dom (alpha m) = dom (beta m)"
  shows "\<exists>m' x y.
      BernoulliBetaTS_update m a r =
        (m', Inr \<lparr> p_action = a, p_alpha = (if r = 1 then x + 1 else x), p_beta = (if r = 1 then y else y + 1) \<rparr>)
      \<and> alpha (initialize_action m a) a = Some x \<and> beta (initialize_action m a) a = Some y
      \<and> (alpha m a = None \<longrightarrow> x = alpha_0 m \<and> y = beta_0 m)
      \<and> (alpha m a \<noteq> None \<longrightarrow> alpha m a = Some x \<and> beta m a = Some y)
      \<and> (r = 1 \<longrightarrow> alpha m' a = Some (x + 1) \<and> beta m' a = Some y)
      \<and> (r \<noteq> 1 \<longrightarrow> alpha m' a = Some x \<and> beta m' a = Some (y + 1))
      \<and> (\<forall>b. b \<noteq> a \<longrightarrow> alpha m' b = alpha m b \<and> beta m' b = beta m b)
      \<and> alpha_0 m' = alpha_0 m \<and> beta_0 m' = beta_0 m
      \<and> dom (alpha m') = dom (beta m')
      \<and> (\<forall>draw actions m2 res.
            BernoulliBetaTS_select_action m draw actions = (m2, res) \<longrightarrow>
              registered_only m (set actions) m2 \<and>
              (\<forall>best sampled. res = Inr (best, sampled) \<longrightarrow>
                 best \<in> set actions \<and> set actions \<subseteq> dom (alpha m2)))"
proof -
  let ?m1 = "initialize_action m a"
  have inv1: "dom (alpha ?m1) = dom (beta ?m1)" using inv by (rule initialize_action_dom)
  have da: "a \<in> dom (alpha ?m1)" by (auto simp: initialize_action_def)
  with inv1 have db: "a \<in> dom (beta ?m1)" by simp
  from da obtain x where x: "alpha ?m1 a = Some x" by (auto simp: dom_def)
  from db obtain y where y: "beta ?m1 a = Some y" by (auto simp: dom_def)
  note xy = x y
  have unseen: "alpha m a = None \<Longrightarrow> x = alpha_0 m \<and> y = beta_0 m"
    using xy by (simp add: initialize_action_def)
  have seen: "alpha m a \<noteq> None \<Longrightarrow> alpha m a = Some x \<and> beta m a = Some y"
    using xy by (auto simp: initialize_action_def)
  define m' where "m' = (if r = 1 then ?m1\<lparr> alpha := (alpha ?m1)(a \<mapsto> x + 1) \<rparr>
                         else ?m1\<lparr> beta := (beta ?m1)(a \<mapsto> y + 1) \<rparr>)"
  have upd: "BernoulliBetaTS_update m a r =
        (m', Inr \<lparr> p_action = a, p_alpha = (if r = 1 then x + 1 else x), p_beta = (if r = 1 then y else y + 1) \<rparr>)"
    using xy by (simp add: BernoulliBetaTS_update_def m'_def Let_def)
  have frame: "\<forall>b. b \<noteq> a \<longrightarrow> alpha m' b = alpha m b \<and> beta m' b = beta m b"
    by (simp add: m'_def initialize_action_frame)
  have dom': "dom (alpha m') = dom (beta m')"
    using inv1 xy by (auto simp: m'_def split: if_splits)
  have sel: "\<forall>draw actions m2 res.
            BernoulliBetaTS_select_action m draw actions = (m2, res) \<longrightarrow>
              registered_only m (set actions) m2 \<and>
              (\<forall>best sampled. res = Inr (best, sampled) \<longrightarrow>
                 best \<in> set actions \<and> set actions \<subseteq> dom (alpha m2))"
    using select_action_registered select_action_best by blast
  show ?thesis
    apply (rule exI [of _ m'], rule exI [of _ x], rule exI [of _ y])
    using upd xy unseen seen frame dom' sel
    by (simp add: m'_def)
qed


theorem BernoulliBetaTS_update_frame_witness:
  "BernoulliBetaTS_update (BernoulliBetaTS_init 1 1) ''A1'' 1
     = ((BernoulliBetaTS_init 1 1)\<lparr> alpha := [''A1'' \<mapsto> 2], beta := [''A1'' \<mapsto> 1] \<rparr>,
        Inr \<lparr> p_action = ''A1'', p_alpha = 2, p_beta = 1 \<rparr>)
   \<and> dom (alpha (BernoulliBetaTS_init 1 1)) = dom (beta (BernoulliBetaTS_init 1 1))
   \<and> registered_only (BernoulliBetaTS_init 1 1) {''A1'', ''A2''}
        (fst (BernoulliBetaTS_select_action (BernoulliBetaTS_init 1 1) (\<lambda>i. 1 / 2) [''A1'', ''A2'']))
   \<and> BernoulliBetaTS_select_action (BernoulliBetaTS_init 1 1) (\<lambda>i. 1 / 2) [''A1'', ''A2'']
     = ((BernoulliBetaTS_init 1 1)\<lparr> alpha := [''A1'' \<mapsto> 1, ''A2'' \<mapsto> 1], beta := [''A1'' \<mapsto> 1, ''A2'' \<mapsto> 1] \<rparr>,
        Inr (''A1'', [(''A1'', 1 / 2), (''A2'', 1 / 2)]))"
proof -
  have inv: "dom (alpha (BernoulliBetaTS_init 1 1)) = dom (beta (BernoulliBetaTS_init 1 1))"
    by (simp add: BernoulliBetaTS_init_def)
  have sel: "BernoulliBetaTS_select_action (BernoulliBetaTS_init 1 1) (\<lambda>i. 1 / 2) [''A1'', ''A2'']
     = ((BernoulliBetaTS_init 1 1)\<lparr> alpha := [''A1'' \<mapsto> 1, ''A2'' \<mapsto> 1], beta := [''A1'' \<mapsto> 1, ''A2'' \<mapsto> 1] \<rparr>,
        Inr (''A1'', [(''A1'', 1 / 2), (''A2'', 1 / 2)]))"
    by (simp add: BernoulliBetaTS_select_action_def BernoulliBetaTS_init_def initialize_action_def Let_def)
  from BernoulliBetaTS_update_frame [OF inv, of "''A1''" 1] obtain m' x y where
    u: "BernoulliBetaTS_update (BernoulliBetaTS_init 1 1) ''A1'' 1 =
        (m', Inr \<lparr> p_action = ''A1'', p_alpha = (if (1::real) = 1 then x + 1 else x),
                   p_beta = (if (1::real) = 1 then y else y + 1) \<rparr>)"
    and s: "\<forall>draw actions m2 res.
            BernoulliBetaTS_select_action (BernoulliBetaTS_init 1 1) draw actions = (m2, res) \<longrightarrow>
              registered_only (BernoulliBetaTS_init 1 1) (set actions) m2 \<and>
              (\<forall>best sampled. res = Inr (best, sampled) \<longrightarrow>
                 best \<in> set actions \<and> set actions \<subseteq> dom (alpha m2))"
    by blast
  have r: "registered_only (BernoulliBetaTS_init 1 1) {''A1'', ''A2''}
        (fst (BernoulliBetaTS_select_action (BernoulliBetaTS_init 1 1) (\<lambda>i. 1 / 2) [''A1'', ''A2'']))"
    using s [rule_format, OF sel] by (simp add: sel insert_commute)
  have e: "BernoulliBetaTS_update (BernoulliBetaTS_init 1 1) ''A1'' 1
     = ((BernoulliBetaTS_init 1 1)\<lparr> alpha := [''A1'' \<mapsto> 2], beta := [''A1'' \<mapsto> 1] \<rparr>,
        Inr \<lparr> p_action = ''A1'', p_alpha = 2, p_beta = 1 \<rparr>)"
    by (simp add: BernoulliBetaTS_update_def BernoulliBetaTS_init_def initialize_action_def Let_def)
  from e inv r sel show ?thesis by blast
qed

section \<open>Ordering of mission events\<close>





section \<open>The intervention start date\<close>








section \<open>The posterior update of the logistic bandit\<close>




lemma vdot_sum: "length x = length y \<Longrightarrow> vdot x y = (\<Sum>j<length x. x ! j * y ! j)"
  by (simp add: vdot_def sum_list_sum_nth atLeast0LessThan)

text \<open>
  Claim C5. For a bandit whose arrays have length \<open>feature_dim\<close> and a feature vector of
  that length, \<open>update\<close> returns normally and its new parameters are, coordinate by
  coordinate, those of the four steps in this order: (1) decay of the precision with floor
  at the prior when \<open>0 < discount < 1\<close>; (2) \<open>\<sigma>\<close> from the mean before the update; (3) the
  precision of step 1 plus \<open>x\<^sup>2 \<cdot> \<sigma> \<cdot> (1 - \<sigma>)\<close>; (4) the old mean minus
  \<open>(\<sigma> - reward) \<cdot> x\<close> divided by the precision of step 3. Nothing else changes.
\<close>

theorem LogisticLaplaceTS_update_steps:
  assumes "length (mu m) = feature_dim m" "length (Pd m) = feature_dim m"
    and "length (P0_diag m) = feature_dim m" "length x = feature_dim m"
  shows "\<exists>m'. LogisticLaplaceTS_update m x r = Inr m'
      \<and> length (mu m') = feature_dim m \<and> length (Pd m') = feature_dim m
      \<and> (\<forall>i<feature_dim m.
            Pd m' ! i = spec_precision (spec_decay (discount m) (P0_diag m ! i) (Pd m ! i)) (x ! i)
                          (spec_sigma x (mu m))
          \<and> mu m' ! i = spec_mean (mu m ! i) (spec_sigma x (mu m)) r (x ! i) (Pd m' ! i))
      \<and> feature_dim m' = feature_dim m \<and> discount m' = discount m \<and> P0_diag m' = P0_diag m
      \<and> LogisticLaplaceTS_params m' = (mu m', Pd m')"
proof -
  define Pd1 where "Pd1 = (if 0 < discount m \<and> discount m < 1
                 then map2 max (map (\<lambda>p. p * discount m) (Pd m)) (P0_diag m)
                 else Pd m)"
  define sg where "sg = sigmoid (vdot x (mu m))"
  define Pd2 where "Pd2 = map2 (+) Pd1 (map (\<lambda>xi. xi ^ 2 * sg * (1 - sg)) x)"
  define mu2 where "mu2 = map2 (-) (mu m) (map2 (/) (map (\<lambda>xi. (sg - r) * xi) x) Pd2)"
  define m' where "m' = m\<lparr> Pd := Pd2, mu := mu2 \<rparr>"
  have l1: "length Pd1 = feature_dim m" using assms by (simp add: Pd1_def)
  have l2: "length Pd2 = feature_dim m" using assms l1 by (simp add: Pd2_def)
  have l3: "length mu2 = feature_dim m" using assms l2 by (simp add: mu2_def)
  have upd: "LogisticLaplaceTS_update m x r = Inr m'"
    using assms l1
    by (simp add: LogisticLaplaceTS_update_def Let_def Pd1_def [symmetric] sg_def [symmetric]
        Pd2_def [symmetric] mu2_def [symmetric] m'_def)
  have sg: "sg = spec_sigma x (mu m)"
    using assms by (simp add: sg_def sigmoid_def spec_sigma_def vdot_sum)
  have p1: "Pd1 ! i = spec_decay (discount m) (P0_diag m ! i) (Pd m ! i)" if "i < feature_dim m" for i
    using that assms by (simp add: Pd1_def spec_decay_def)
  have p2: "Pd2 ! i = spec_precision (Pd1 ! i) (x ! i) sg" if "i < feature_dim m" for i
    using that assms l1 by (simp add: Pd2_def spec_precision_def)
  have m2: "mu2 ! i = spec_mean (mu m ! i) sg r (x ! i) (Pd2 ! i)" if "i < feature_dim m" for i
    using that assms l2 by (simp add: mu2_def spec_mean_def)
  have "\<forall>i<feature_dim m.
            Pd m' ! i = spec_precision (spec_decay (discount m) (P0_diag m ! i) (Pd m ! i)) (x ! i)
                          (spec_sigma x (mu m))
          \<and> mu m' ! i = spec_mean (mu m ! i) (spec_sigma x (mu m)) r (x ! i) (Pd m' ! i)"
    using p1 p2 m2 sg by (simp add: m'_def)
  with upd l2 l3 show ?thesis
    by (intro exI [of _ m']) (simp add: m'_def LogisticLaplaceTS_params_def)
qed

theorem LogisticLaplaceTS_update_steps_witness:
  "map_sum id LogisticLaplaceTS_params
     (LogisticLaplaceTS_update ((LogisticLaplaceTS_init 2 (1 / 2))\<lparr> Pd := [4, 1] \<rparr>) [1, 2] 1)
     = Inr ([2 / 9, 1 / 2], [9 / 4, 2])
   \<and> spec_sigma [1, 2] [0, 0] = 1 / 2
   \<and> spec_decay (1 / 2) 1 4 = 2 \<and> spec_decay (1 / 2) 1 1 = 1
   \<and> spec_precision 2 1 (1 / 2) = 9 / 4"
proof -
  let ?m = "(LogisticLaplaceTS_init 2 (1 / 2))\<lparr> Pd := [4, 1] \<rparr>"
  have len: "length (mu ?m) = feature_dim ?m" "length (Pd ?m) = feature_dim ?m"
    "length (P0_diag ?m) = feature_dim ?m" "length [1, 2 :: real] = feature_dim ?m"
    by (simp_all add: LogisticLaplaceTS_init_def)
  have sg: "spec_sigma [1, 2] [0, 0] = 1 / 2"
    by (simp add: spec_sigma_def lessThan_Suc numeral_2_eq_2)
  have d: "spec_decay (1 / 2) 1 4 = 2" "spec_decay (1 / 2) 1 1 = 1"
    by (simp_all add: spec_decay_def)
  have p: "spec_precision 2 1 (1 / 2) = 9 / 4" "spec_precision 1 2 (1 / 2) = 2"
    by (simp_all add: spec_precision_def)
  have mn: "spec_mean 0 (1 / 2) 1 1 (9 / 4) = 1 / 9 * 2" "spec_mean 0 (1 / 2) 1 2 2 = 1 / 2"
    by (simp_all add: spec_mean_def)
  from LogisticLaplaceTS_update_steps [OF len, of 1] obtain m' where
    u: "LogisticLaplaceTS_update ?m [1, 2] 1 = Inr m'"
    and l: "length (mu m') = 2" "length (Pd m') = 2"
    and c: "\<forall>i<feature_dim ?m.
            Pd m' ! i = spec_precision (spec_decay (discount ?m) (P0_diag ?m ! i) (Pd ?m ! i)) ([1, 2] ! i)
                          (spec_sigma [1, 2] (mu ?m))
          \<and> mu m' ! i = spec_mean (mu ?m ! i) (spec_sigma [1, 2] (mu ?m)) 1 ([1, 2] ! i) (Pd m' ! i)"
    by (auto simp: LogisticLaplaceTS_init_def)
  have mu0: "mu ?m = [0, 0]" "P0_diag ?m = [1, 1]" "discount ?m = 1 / 2" "feature_dim ?m = 2"
    by (simp_all add: LogisticLaplaceTS_init_def numeral_2_eq_2)
  from c [rule_format, of 0] have c0p: "Pd m' ! 0 = 9 / 4"
    by (simp add: mu0 sg d p)
  from c [rule_format, of 0] have c0: "mu m' ! 0 = 2 / 9"
    by (simp add: mu0 sg d p c0p spec_mean_def)
  from c [rule_format, of 1] have c1p: "Pd m' ! 1 = 2"
    by (simp add: mu0 sg d p)
  from c [rule_format, of 1] have c1: "mu m' ! 1 = 1 / 2"
    by (simp add: mu0 sg d p c1p spec_mean_def)
  have two: "xs = [a, b]" if "length xs = 2" "xs ! 0 = a" "xs ! 1 = b" for xs :: "real list" and a b
    using that by (cases xs; cases "tl xs") auto
  have "mu m' = [2 / 9, 1 / 2]" "Pd m' = [9 / 4, 2]"
    by (rule two [OF l(1) c0 c1], rule two [OF l(2) c0p c1p])
  with u sg d p show ?thesis by (simp add: LogisticLaplaceTS_params_def)
qed

section \<open>Properties of the feature pipeline\<close>

lemma sum_list_divide_const: "sum_list (map (\<lambda>x. x / s) xs) = sum_list xs / (s::real)"
  by (induction xs) (simp_all add: add_divide_distrib)

lemma multi_hot_nonneg: "0 \<le> sum_list (map (\<lambda>i. if P i then (1::real) else 0) xs)"
  by (induction xs) simp_all

lemma multi_hot_pos:
  "\<exists>i\<in>set xs. P i \<Longrightarrow> 0 < sum_list (map (\<lambda>i. if P i then (1::real) else 0) xs)"
proof (induction xs)
  case Nil
  then show ?case by simp
next
  case (Cons x xs)
  have n: "0 \<le> sum_list (map (\<lambda>i. if P i then (1::real) else 0) xs)" by (rule multi_hot_nonneg)
  show ?case
  proof (cases "P x")
    case True
    with n show ?thesis by simp
  next
    case False
    with Cons.prems have "\<exists>i\<in>set xs. P i" by simp
    from Cons.IH [OF this] False show ?thesis by simp
  qed
qed

lemma multi_hot_zero:
  "\<forall>i\<in>set xs. \<not> P i \<Longrightarrow> sum_list (map (\<lambda>i. if P i then (1::real) else 0) xs) = 0"
  by (induction xs) simp_all

lemma length_INTERVENTION_TYPES [simp]: "length INTERVENTION_TYPES = 8"
  by (simp add: INTERVENTION_TYPES_def)

lemma get_intervention_encoding_valid:
  assumes "set intervention \<subseteq> set INTERVENTION_TYPES"
  shows "\<exists>v. get_intervention_encoding intervention = Inr v \<and> length v = 8
           \<and> (intervention \<noteq> [] \<longrightarrow> sum_list v = 1)
           \<and> (intervention = [] \<longrightarrow> v = replicate 8 0)"
proof -
  let ?mh = "map (\<lambda>i. if i \<in> set intervention then (1::real) else 0) INTERVENTION_TYPES"
  have all: "list_all (\<lambda>i. i \<in> set INTERVENTION_TYPES) intervention"
    using assms by (auto simp: list_all_iff)
  show ?thesis
  proof (cases "intervention = []")
    case True
    then have "sum_list ?mh = 0" by (simp add: multi_hot_zero)
    with all True show ?thesis by (simp add: get_intervention_encoding_def Let_def)
  next
    case False
    then obtain i where "i \<in> set intervention" by (cases intervention) auto
    with assms have "\<exists>i\<in>set INTERVENTION_TYPES. i \<in> set intervention" by blast
    then have pos: "0 < sum_list ?mh" by (rule multi_hot_pos)
    then have "sum_list (map (\<lambda>x. x / sum_list ?mh) ?mh) = 1"
      by (simp only: sum_list_divide_const) simp
    with all False pos show ?thesis
      by (simp add: get_intervention_encoding_def Let_def)
  qed
qed


lemma get_intervention_encoding_length:
  "get_intervention_encoding intervention = Inr v \<Longrightarrow> length v = 8"
  by (auto simp: get_intervention_encoding_def Let_def split: if_splits)

lemma encode_gender:
  "encode_personal_feature pd ''gender'' =
     [case gender pd of None \<Rightarrow> 1 / 2
      | Some s \<Rightarrow> if s = ''female'' then 0 else if s = ''male'' then 1 else 1 / 2]"
  by (auto simp: encode_personal_feature_def PERSONAL_DATA_CATEGORICAL_FEATURES_def dict_keys_def
      CATEGORICAL_TO_NUMERIC_def CATEGORICAL_TO_NUMERIC_EXPLICIT_def dict_get_def pd_categorical_def
      Let_def split: option.splits)

lemma encode_userAge:
  "encode_personal_feature pd ''userAge'' =
     [case userAge pd of None \<Rightarrow> 1 / 2 | Some v \<Rightarrow> min_max_norm v 45 80]"
  by (simp add: encode_personal_feature_def PERSONAL_DATA_CATEGORICAL_FEATURES_def dict_keys_def
      NUMERIC_FEATURES_MIN_MAX_def dict_get_def pd_numeric_def split: option.splits)

lemma encode_education:
  "encode_personal_feature pd ''education'' =
     [case education pd of None \<Rightarrow> 1 / 2
      | Some s \<Rightarrow>
          if s \<notin> set [''no-education'', ''primary'', ''secondary'', ''vocational'', ''university'', ''postgraduate'']
          then 1 / 2
          else real (list_index [''no-education'', ''primary'', ''secondary'', ''vocational'', ''university'',
                                 ''postgraduate''] s) / 5]"
  by (simp add: encode_personal_feature_def PERSONAL_DATA_CATEGORICAL_FEATURES_def dict_keys_def
      CATEGORICAL_TO_NUMERIC_def CATEGORICAL_TO_NUMERIC_EXPLICIT_def dict_get_def pd_categorical_def
      LEAVE_OUT_VARS_def get_list_def Let_def split: option.splits)

lemma encode_recruitmentCenter:
  "encode_personal_feature pd ''recruitmentCenter'' =
     (case recruitmentCenter pd of None \<Rightarrow> [0, 0, 0]
      | Some s \<Rightarrow> if s \<notin> set [''ICO'', ''UMFCD'', ''UNIPA''] then [0, 0, 0]
                  else one_hot_encode s [''ICO'', ''UMFCD'', ''UNIPA''])"
  by (simp add: encode_personal_feature_def PERSONAL_DATA_CATEGORICAL_FEATURES_def dict_keys_def
      CATEGORICAL_TO_NUMERIC_def dict_get_def pd_categorical_def
      LEAVE_OUT_VARS_def get_list_def Let_def numeral_3_eq_3 split: option.splits)

lemma get_personal_data_encoding_eq:
  "get_personal_data_encoding pd =
     encode_personal_feature pd ''gender'' @ encode_personal_feature pd ''userAge''
     @ encode_personal_feature pd ''education'' @ encode_personal_feature pd ''recruitmentCenter''"
  by (simp add: get_personal_data_encoding_def PERSONAL_DATA_FEATURES_def)

lemma length_encode_recruitmentCenter: "length (encode_personal_feature pd ''recruitmentCenter'') = 3"
  by (simp add: encode_recruitmentCenter one_hot_encode_def split: option.splits)

lemma length_get_personal_data_encoding: "length (get_personal_data_encoding pd) = 6"
  by (simp add: get_personal_data_encoding_eq encode_gender encode_userAge encode_education
      length_encode_recruitmentCenter)





section \<open>Dimension of the feature vector\<close>

lemma get_personal_data_labels_eq:
  "get_personal_data_labels = [''gender'', ''userAge'', ''education'', ''ICO'', ''UMFCD'', ''UNIPA'']"
  by (simp add: get_personal_data_labels_def PERSONAL_DATA_FEATURES_def
      PERSONAL_DATA_CATEGORICAL_FEATURES_def dict_keys_def CATEGORICAL_TO_NUMERIC_def
      LEAVE_OUT_VARS_def get_list_def dict_get_def)

lemma base_keys: "dict_keys BASE_LABELS =
  [''D'', ''H'', ''Hc'', ''ND'', ''P'', ''MF'', ''TF'', ''IT'', ''NIT'', ''IF'', ''RF'', ''ER'', ''PR'', ''MS'']"
  by (simp add: BASE_LABELS_def dict_keys_def)

lemma base_dimension_values:
  "base_dimension ''D'' = 6" "base_dimension ''H'' = 5" "base_dimension ''Hc'' = 1"
  "base_dimension ''ND'' = 1" "base_dimension ''P'' = 4" "base_dimension ''MF'' = 1"
  "base_dimension ''TF'' = 2" "base_dimension ''IT'' = 8" "base_dimension ''NIT'' = 1"
  "base_dimension ''IF'' = 2" "base_dimension ''RF'' = 2" "base_dimension ''ER'' = 1"
  "base_dimension ''PR'' = 1" "base_dimension ''MS'' = 1"
  by (simp_all add: base_dimension_def BASE_DIMENSIONS_def BASE_LABELS_def dict_get_def
      get_personal_data_labels_eq PILLARS_def LEAVE_OUT_VARS_def get_list_def INTERVENTION_TYPES_def)

lemma length_encode_frequency [simp]: "length (encode_frequency v d a b) = d"
  by (simp add: encode_frequency_def Let_def)

lemma frequency_degree_values [simp]:
  "frequency_degree ''MF'' = 1" "frequency_degree ''TF'' = 1"
  "frequency_degree ''IF'' = 1" "frequency_degree ''RF'' = 1"
  by (simp_all add: frequency_degree_def FREQUENCY_FEATURE_DEGREES_def dict_get_def)

lemma get_pillar_encoding_length: "get_pillar_encoding p = Inr P \<Longrightarrow> length P = 4"
  by (auto simp: get_pillar_encoding_def one_hot_encode_def PILLARS_def LEAVE_OUT_VARS_def
      get_list_def dict_get_def split: if_splits)

lemma get_encodings_blocks:
  assumes "get_encodings inp = Inr bp"
  shows "\<forall>k\<in>set (dict_keys BASE_LABELS). length (get_list bp k) = base_dimension k"
proof -
  from assms obtain P IT sc where
    P: "get_pillar_encoding (in_pillar inp) = Inr P"
    and IT: "get_intervention_encoding (in_intervention inp) = Inr IT"
    and bp: "bp = [(''D'', get_personal_data_encoding (in_personal_data inp)),
                   (''H'', get_hhs_encoding (in_hhs inp)),
                   (''Hc'', get_hhs_current_encoding (in_hhs inp) (in_pillar inp)),
                   (''ND'', get_num_intervention_days_encoding (in_num_intervention_days inp)),
                   (''P'', P),
                   (''MF'', get_mission_frequency_encoding (in_mission_frequency inp)),
                   (''TF'', get_total_frequency_encoding (in_total_frequency_past_week inp) False
                      @ get_total_frequency_encoding (in_total_frequency_scheduled inp) True),
                   (''IT'', IT),
                   (''NIT'', get_num_int_types_encoding (in_intervention inp)),
                   (''IF'', get_intervention_frequency_encoding (in_intervention_frequency_past_week inp) False
                             @ get_intervention_frequency_encoding (in_intervention_frequency_scheduled inp) True),
                   (''RF'', get_recommendation_frequency_encoding (in_recommendation_frequency_past_week inp) False
                             @ get_recommendation_frequency_encoding (in_recommendation_frequency_scheduled inp) True),
                   (''ER'', get_engagement_rate_encoding
                               (Some (case in_er_past_value inp of None \<Rightarrow> 0 | Some v \<Rightarrow> v))),
                   (''PR'', get_prompted_encoding (in_prompted inp)),
                   (''MS'', [max 0 (min 1 sc)])]"
    by (auto simp: get_encodings_def Let_def split: sum.splits option.splits)
  have lens: "length (get_personal_data_encoding (in_personal_data inp)) = 6"
    "length (get_hhs_encoding (in_hhs inp)) = 5" "length P = 4" "length IT = 8"
    using P IT
    by (simp_all add: length_get_personal_data_encoding get_hhs_encoding_def PILLARS_def
        get_pillar_encoding_length get_intervention_encoding_length)
  show ?thesis
    unfolding base_keys bp
    by (simp add: get_list_def dict_get_def base_dimension_values lens
        get_hhs_current_encoding_def get_num_intervention_days_encoding_def
        get_mission_frequency_encoding_def get_total_frequency_encoding_def
        get_num_int_types_encoding_def get_intervention_frequency_encoding_def
        get_recommendation_frequency_encoding_def get_engagement_rate_encoding_def
        get_prompted_encoding_def Let_def split: option.splits)
qed

lemma length_concat_blocks:
  "\<forall>k\<in>set ks. length (f k) = g k \<Longrightarrow>
   length (concat (map f (filter P ks))) = sum_list (map g (filter P ks))"
  by (induction ks) simp_all

lemma length_concat_products:
  "\<forall>(ik, (a, b)) \<in> set prs. length (blk a) = bd a \<and> length (blk b) = bd b \<Longrightarrow>
   length (concat (map (\<lambda>(ik, (a, b)). map (\<lambda>(x, y). x * (y::real)) (List.product (blk a) (blk b)))
                      (filter Q prs)))
   = sum_list (map (\<lambda>(ik, (a, b)). bd a * bd b) (filter Q prs))"
  by (induction prs) auto

lemma interaction_pairs_in_base:
  "\<forall>(ik, (a, b)) \<in> set INTERACTION_PAIRS. a \<in> set (dict_keys BASE_LABELS) \<and> b \<in> set (dict_keys BASE_LABELS)"
  by (simp add: INTERACTION_PAIRS_def base_keys)

lemma feature_vector_for_length:
  assumes "feature_vector_for flags inp = Inr fv"
  shows "length fv = dim_for flags True"
proof -
  from assms obtain bp where bp: "get_encodings inp = Inr bp"
    by (auto simp: feature_vector_for_def split: sum.splits)
  note blocks = get_encodings_blocks [OF bp]
  have base: "length (concat (map (get_list bp) (filter (get_flag flags) (dict_keys BASE_LABELS))))
              = sum_list (map base_dimension (filter (get_flag flags) (dict_keys BASE_LABELS)))"
    using blocks by (rule length_concat_blocks)
  have prs: "\<forall>(ik, (a, b)) \<in> set INTERACTION_PAIRS.
               length (get_list bp a) = base_dimension a \<and> length (get_list bp b) = base_dimension b"
    using interaction_pairs_in_base blocks by fastforce
  have cart: "length (concat (map (\<lambda>(ik, (a, b)). map (\<lambda>(x, y). x * y) (List.product (get_list bp a) (get_list bp b)))
                      (filter (\<lambda>(inter_key, ab). get_flag flags inter_key) INTERACTION_PAIRS)))
   = sum_list (map (\<lambda>(ik, (a, b)). base_dimension a * base_dimension b)
                      (filter (\<lambda>(inter_key, ab). get_flag flags inter_key) INTERACTION_PAIRS))"
    using prs by (rule length_concat_products)
  have it: "length (get_list bp ''IT'') = 8"
    using blocks by (simp add: base_keys base_dimension_values)
  let ?blk = "get_list bp"
  let ?cart = "concat (map (\<lambda>(ik, (a, b)). map (\<lambda>(x, y). x * y) (List.product (?blk a) (?blk b)))
                      (filter (\<lambda>(inter_key, ab). get_flag flags inter_key) INTERACTION_PAIRS))"
  from assms bp obtain TFs RFs IFs MF0 NIT0 where
    nth: "py_nth (?blk ''TF'') 1 = Inr TFs" "py_nth (?blk ''RF'') 1 = Inr RFs"
         "py_nth (?blk ''IF'') 1 = Inr IFs" "py_nth (?blk ''MF'') 0 = Inr MF0"
         "py_nth (?blk ''NIT'') 0 = Inr NIT0"
    by (simp add: feature_vector_for_def Let_def split: sum.splits)
  from assms bp nth obtain age_c where age: "get_age_centered (?blk ''D'') = Inr age_c"
    by (simp add: feature_vector_for_def Let_def split: sum.splits)
  let ?fv3 = "[1] @ concat (map ?blk (filter (get_flag flags) (dict_keys BASE_LABELS)))
                        @ (if get_flag flags ''MF_x_TF_sched'' then [MF0 * TFs] else [])
                        @ (if get_flag flags ''MF_x_RF_sched'' then [MF0 * RFs] else [])
                        @ (if get_flag flags ''MF_x_IF_sched'' then [MF0 * IFs] else [])
                        @ (if get_flag flags ''NIT_x_IF_sched'' then [NIT0 * IFs] else [])
                        @ (if get_flag flags ''AGEc_x_RF_sched'' then [age_c * RFs] else [])
                        @ (if get_flag flags ''AGEc_x_IT'' then map (\<lambda>w. age_c * w) (?blk ''IT'') else [])"
  have l3: "length ?fv3 = 1 + sum_list (map base_dimension (filter (get_flag flags) (dict_keys BASE_LABELS)))
     + (if get_flag flags ''MF_x_TF_sched'' then 1 else 0)
     + (if get_flag flags ''MF_x_RF_sched'' then 1 else 0)
     + (if get_flag flags ''MF_x_IF_sched'' then 1 else 0)
     + (if get_flag flags ''NIT_x_IF_sched'' then 1 else 0)
     + (if get_flag flags ''AGEc_x_RF_sched'' then 1 else 0)
     + (if get_flag flags ''AGEc_x_IT'' then length INTERVENTION_TYPES else 0)"
    by (simp add: base it)
  show ?thesis
  proof (cases "get_flag flags ''HHS_c_x_RF_sched'' \<or> get_flag flags ''HHS_c_x_IT''")
    case True
    from assms bp nth age True obtain hhs_c where
      h: "get_hhs_current_centered (?blk ''H'') (in_pillar inp) = Inr hhs_c"
      by (cases "get_hhs_current_centered (?blk ''H'') (in_pillar inp)")
        (simp_all add: feature_vector_for_def Let_def)
    from assms bp nth age True h have
      fv: "fv = ?fv3 @ (if get_flag flags ''HHS_c_x_RF_sched'' then [hhs_c * RFs] else [])
                  @ (if get_flag flags ''HHS_c_x_IT'' then map (\<lambda>w. hhs_c * w) (?blk ''IT'') else [])
                  @ ?cart"
      by (simp add: feature_vector_for_def Let_def)
    have "length fv = length ?fv3 + (if get_flag flags ''HHS_c_x_RF_sched'' then 1 else 0)
            + (if get_flag flags ''HHS_c_x_IT'' then length INTERVENTION_TYPES else 0) + length ?cart"
      unfolding fv by (simp add: it)
    then show ?thesis unfolding l3 cart dim_for_def by simp
  next
    case False
    with assms bp nth age have fv: "fv = ?fv3 @ ?cart"
      by (simp add: feature_vector_for_def Let_def)
    have "length fv = length ?fv3 + length ?cart" unfolding fv by simp
    then show ?thesis unfolding l3 cart dim_for_def using False by simp
  qed
qed


lemma list_index_less: "x \<in> set xs \<Longrightarrow> list_index xs x < length xs"
  by (induction xs) auto

lemma get_age_centered_ok:
  "length D = 6 \<Longrightarrow> \<exists>c. get_age_centered D = Inr c"
  by (simp add: get_age_centered_def py_index_def py_nth_def BASE_LABELS_def get_list_def
      dict_get_def get_personal_data_labels_eq)

lemma get_hhs_current_centered_ok:
  "length H = 5 \<Longrightarrow> p \<in> set PILLARS \<Longrightarrow> \<exists>c. get_hhs_current_centered H p = Inr c"
  using list_index_less [of p PILLARS]
  by (simp add: get_hhs_current_centered_def py_index_def py_nth_def) (simp add: PILLARS_def)

lemma get_encodings_ok:
  assumes "in_pillar inp \<in> set PILLARS" "set (in_intervention inp) \<subseteq> set INTERVENTION_TYPES"
    and "in_prev_mission_score inp \<noteq> None"
  shows "\<exists>bp. get_encodings inp = Inr bp"
proof -
  from assms(1) obtain P where "get_pillar_encoding (in_pillar inp) = Inr P"
    by (simp add: get_pillar_encoding_def)
  moreover from get_intervention_encoding_valid [OF assms(2)] obtain IT where
    "get_intervention_encoding (in_intervention inp) = Inr IT" by blast
  moreover from assms(3) obtain sc where "in_prev_mission_score inp = Some sc" by auto
  ultimately show ?thesis by (simp add: get_encodings_def Let_def)
qed

lemma feature_vector_for_ok:
  assumes "in_pillar inp \<in> set PILLARS" "set (in_intervention inp) \<subseteq> set INTERVENTION_TYPES"
    and "in_prev_mission_score inp \<noteq> None"
  shows "\<exists>fv. feature_vector_for flags inp = Inr fv"
proof -
  from get_encodings_ok [OF assms] obtain bp where bp: "get_encodings inp = Inr bp" ..
  note blocks = get_encodings_blocks [OF bp]
  have len: "length (get_list bp ''TF'') = 2" "length (get_list bp ''RF'') = 2"
    "length (get_list bp ''IF'') = 2" "length (get_list bp ''MF'') = 1"
    "length (get_list bp ''NIT'') = 1" "length (get_list bp ''D'') = 6"
    "length (get_list bp ''H'') = 5"
    using blocks by (simp_all add: base_keys base_dimension_values)
  from get_age_centered_ok [OF len(6)] obtain age_c where
    age: "get_age_centered (get_list bp ''D'') = Inr age_c" ..
  from get_hhs_current_centered_ok [OF len(7) assms(1)] obtain hhs_c where
    h: "get_hhs_current_centered (get_list bp ''H'') (in_pillar inp) = Inr hhs_c" ..
  have ne: "get_list bp ''MF'' \<noteq> []" "get_list bp ''NIT'' \<noteq> []"
    using len(4,5) by auto
  show ?thesis
    by (simp add: feature_vector_for_def bp Let_def py_nth_def len ne age h)
qed

lemma dim_config: "get_dim_intervention_feature_vector True = 45"
  by (simp add: get_dim_intervention_feature_vector_def dim_for_def base_keys base_dimension_values
      get_flag_def dict_get_def INTERVENTION_MAB_FEATURES_def INTERACTION_PAIRS_def)

text \<open>
  Claim C7. For every input on which \<open>get_intervention_feature_vector\<close> returns (it returns
  whenever the pillar is one of \<open>PILLARS\<close>, the item types are all recognised and the previous
  mission score is a number), the length of the vector is
  \<open>get_dim_intervention_feature_vector()\<close>, which is 45 for the configured flags; the same
  holds for every flag dictionary \<open>flags\<close> in place of \<open>INTERVENTION_MAB_FEATURES\<close>: the length
  is \<open>dim_for flags True\<close>, a function of the schema alone.
\<close>

theorem feature_vector_dimension:
  "(in_pillar inp \<in> set PILLARS \<and> set (in_intervention inp) \<subseteq> set INTERVENTION_TYPES
      \<and> in_prev_mission_score inp \<noteq> None
      \<longrightarrow> (\<exists>fv. feature_vector_for flags inp = Inr fv)
          \<and> (\<exists>fv. get_intervention_feature_vector inp = Inr fv))
   \<and> (\<forall>fv. feature_vector_for flags inp = Inr fv \<longrightarrow> length fv = dim_for flags True)
   \<and> (\<forall>fv. get_intervention_feature_vector inp = Inr fv
          \<longrightarrow> length fv = get_dim_intervention_feature_vector True)
   \<and> get_dim_intervention_feature_vector True = 45"
  using feature_vector_for_ok [of inp flags] feature_vector_for_ok [of inp INTERVENTION_MAB_FEATURES]
    feature_vector_for_length [of flags inp] feature_vector_for_length [of INTERVENTION_MAB_FEATURES inp]
    dim_config
  by (simp add: get_intervention_feature_vector_def get_dim_intervention_feature_vector_def)

theorem feature_vector_dimension_witness:
  "\<exists>fv. get_intervention_feature_vector example_fv_input = Inr fv \<and> length fv = 45"
proof -
  have h: "in_pillar example_fv_input \<in> set PILLARS
           \<and> set (in_intervention example_fv_input) \<subseteq> set INTERVENTION_TYPES
           \<and> in_prev_mission_score example_fv_input \<noteq> None"
    by (simp add: example_fv_input_def PILLARS_def INTERVENTION_TYPES_def)
  from feature_vector_dimension [of example_fv_input INTERVENTION_MAB_FEATURES] h
  show ?thesis by auto
qed

section \<open>Candidates and choices\<close>




















section \<open>The counters keep their invariant\<close>
















section \<open>The rounds of the slot loop\<close>










section \<open>The loops of a call\<close>





section \<open>The start of a call\<close>





















section \<open>The mandatory-once item over a history\<close>


section \<open>The quotas of a slate\<close>





section \<open>The threshold gate\<close>















end
